theory Spec2Isabelle
  imports Complex_Main
begin

section \<open>Numbers and arrays\<close>

text \<open>
  The solver computes with Python/numpy floats. A float is modelled as a real number or
  one of the three special values: positive infinity (\<open>np.inf\<close>), negative infinity
  and not-a-number. Arithmetic on finite values is exact (rounding, overflow and signed
  zeros are not modelled); the special values follow IEEE 754: a NaN operand gives NaN,
  \<open>inf - inf\<close> and \<open>0 * inf\<close> are NaN, and every comparison with NaN is false.
  Division follows numpy's scalars, which do not raise on a zero divisor.
\<close>

datatype fl = Fin real | PInf | NInf | NaN

instantiation fl :: "{plus, times, uminus, inverse, ord}"
begin

fun plus_fl :: "fl \<Rightarrow> fl \<Rightarrow> fl" where
  "plus_fl (Fin a) (Fin b) = Fin (a + b)"
| "plus_fl NaN _ = NaN"
| "plus_fl _ NaN = NaN"
| "plus_fl PInf NInf = NaN"
| "plus_fl NInf PInf = NaN"
| "plus_fl PInf _ = PInf"
| "plus_fl _ PInf = PInf"
| "plus_fl NInf _ = NInf"
| "plus_fl _ NInf = NInf"

fun uminus_fl :: "fl \<Rightarrow> fl" where
  "uminus_fl (Fin a) = Fin (- a)"
| "uminus_fl PInf = NInf"
| "uminus_fl NInf = PInf"
| "uminus_fl NaN = NaN"

fun times_fl :: "fl \<Rightarrow> fl \<Rightarrow> fl" where
  "times_fl (Fin a) (Fin b) = Fin (a * b)"
| "times_fl NaN _ = NaN"
| "times_fl _ NaN = NaN"
| "times_fl PInf (Fin b) = (if b = 0 then NaN else if 0 < b then PInf else NInf)"
| "times_fl NInf (Fin b) = (if b = 0 then NaN else if 0 < b then NInf else PInf)"
| "times_fl (Fin a) PInf = (if a = 0 then NaN else if 0 < a then PInf else NInf)"
| "times_fl (Fin a) NInf = (if a = 0 then NaN else if 0 < a then NInf else PInf)"
| "times_fl PInf PInf = PInf"
| "times_fl NInf NInf = PInf"
| "times_fl PInf NInf = NInf"
| "times_fl NInf PInf = NInf"

fun divide_fl :: "fl \<Rightarrow> fl \<Rightarrow> fl" where
  "divide_fl (Fin a) (Fin b) =
     (if b = 0 then (if a = 0 then NaN else if 0 < a then PInf else NInf) else Fin (a / b))"
| "divide_fl NaN _ = NaN"
| "divide_fl _ NaN = NaN"
| "divide_fl (Fin a) PInf = Fin 0"
| "divide_fl (Fin a) NInf = Fin 0"
| "divide_fl PInf (Fin b) = (if 0 \<le> b then PInf else NInf)"
| "divide_fl NInf (Fin b) = (if 0 \<le> b then NInf else PInf)"
| "divide_fl PInf PInf = NaN"
| "divide_fl PInf NInf = NaN"
| "divide_fl NInf PInf = NaN"
| "divide_fl NInf NInf = NaN"

definition inverse_fl :: "fl \<Rightarrow> fl" where
  "inverse_fl a = divide (Fin 1) a"

fun less_fl :: "fl \<Rightarrow> fl \<Rightarrow> bool" where
  "less_fl (Fin a) (Fin b) = (a < b)"
| "less_fl NaN _ = False"
| "less_fl _ NaN = False"
| "less_fl PInf _ = False"
| "less_fl _ NInf = False"
| "less_fl (Fin a) PInf = True"
| "less_fl NInf (Fin b) = True"
| "less_fl NInf PInf = True"

fun less_eq_fl :: "fl \<Rightarrow> fl \<Rightarrow> bool" where
  "less_eq_fl (Fin a) (Fin b) = (a \<le> b)"
| "less_eq_fl NaN _ = False"
| "less_eq_fl _ NaN = False"
| "less_eq_fl NInf _ = True"
| "less_eq_fl _ PInf = True"
| "less_eq_fl (Fin a) NInf = False"
| "less_eq_fl PInf (Fin b) = False"
| "less_eq_fl PInf NInf = False"

instance ..

end

text \<open>\<open>np.sqrt\<close> and \<open>np.isfinite\<close> on a scalar.\<close>

fun fl_sqrt :: "fl \<Rightarrow> fl" where
  "fl_sqrt (Fin a) = (if a < 0 then NaN else Fin (sqrt a))"
| "fl_sqrt PInf = PInf"
| "fl_sqrt NInf = NaN"
| "fl_sqrt NaN = NaN"

fun isfinite :: "fl \<Rightarrow> bool" where
  "isfinite (Fin a) = True"
| "isfinite _ = False"

text \<open>
  Python's built-in \<open>max(a, b)\<close> keeps its first argument unless the second compares
  greater.
\<close>

definition py_max :: "fl \<Rightarrow> fl \<Rightarrow> fl" where
  "py_max a b = (if a < b then b else a)"

text \<open>
  A one-dimensional array is a list of floats, a matrix the list of its rows. The numpy
  operations the solver uses are defined for arrays of conforming shapes (numpy raises
  on the others, which the solver's callers do not supply).
\<close>

type_synonym vec = "fl list"
type_synonym matrix = "fl list list"

primrec fl_sum :: "fl list \<Rightarrow> fl" where
  "fl_sum [] = Fin 0"
| "fl_sum (a # as) = a + fl_sum as"

definition np_inner :: "vec \<Rightarrow> vec \<Rightarrow> fl" where
  "np_inner g p = fl_sum (map2 (\<lambda>a b. a * b) g p)"

definition np_norm :: "vec \<Rightarrow> fl" where
  "np_norm v = fl_sqrt (fl_sum (map (\<lambda>a. a * a) v))"

definition np_neg :: "vec \<Rightarrow> vec" where
  "np_neg v = map uminus v"

definition np_add :: "vec \<Rightarrow> vec \<Rightarrow> vec" where
  "np_add u v = map2 (\<lambda>a b. a + b) u v"

definition np_scale :: "fl \<Rightarrow> vec \<Rightarrow> vec" where
  "np_scale t v = map (\<lambda>a. t * a) v"

definition np_T :: "matrix \<Rightarrow> matrix" where
  "np_T A = transpose A"

definition np_dot :: "matrix \<Rightarrow> vec \<Rightarrow> vec" where
  "np_dot A v = map (\<lambda>row. np_inner row v) A"

definition all_isfinite :: "vec \<Rightarrow> bool" where
  "all_isfinite v = list_all isfinite v"

section \<open>Backtracking line search\<close>

text \<open>
  \<open>BadStep\<close> is the exception class of the module. \<open>NotDescent\<close> stands for the
  \<open>Exception\<close> raised by \<open>lnsrch_armijo\<close> for a direction with positive slope,
  \<open>StoppingCriteria\<close> for the \<open>Exception\<close> at the end of \<open>gn\<close>,
  \<open>IndexError\<close> for indexing an empty sequence of singular values and
  \<open>ZeroDivisionError\<close> for dividing Python floats by zero.
\<close>

datatype error = BadStep | NotDescent | IndexError | ZeroDivisionError | StoppingCriteria

text \<open>
  The callables. An objective or a trajectory either returns a value or raises
  \<open>BadStep\<close> (\<open>None\<close>); they are pure functions.
\<close>

type_synonym objective = "vec \<Rightarrow> fl option"
type_synonym trajectory = "vec \<Rightarrow> vec \<Rightarrow> fl \<Rightarrow> vec option"

definition default_trajectory :: trajectory where
  "default_trajectory x0 p t = Some (np_add x0 (np_scale t p))"

text \<open>
  The \<open>for it in range(maxiter)\<close> loop of \<open>lnsrch_armijo\<close>, with the number of
  iterations left as first argument and the loop variables \<open>alpha\<close>, \<open>x\<close>, \<open>fx\<close> last.
  It returns \<open>success\<close> and the loop variables at loop exit. A \<open>BadStep\<close> raised
  by the trajectory leaves \<open>x\<close> and \<open>fx\<close> as they were, one raised by the objective
  leaves \<open>fx\<close> as it was; either way the \<open>except\<close> clause passes control to
  \<open>alpha *= bt_factor\<close>.
\<close>

fun lnsrch_armijo_loop ::
  "objective \<Rightarrow> trajectory \<Rightarrow> vec \<Rightarrow> vec \<Rightarrow> fl \<Rightarrow> fl \<Rightarrow> fl \<Rightarrow> fl \<Rightarrow>
   nat \<Rightarrow> fl \<Rightarrow> vec \<Rightarrow> fl \<Rightarrow> bool \<times> vec \<times> fl \<times> fl" where
  "lnsrch_armijo_loop f traj x0 p fx0 dg bt_factor ftol 0 alpha x fx = (False, x, alpha, fx)"
| "lnsrch_armijo_loop f traj x0 p fx0 dg bt_factor ftol (Suc n) alpha x fx =
     (case traj x0 p alpha of
        None \<Rightarrow> lnsrch_armijo_loop f traj x0 p fx0 dg bt_factor ftol n (alpha * bt_factor) x fx
      | Some x' \<Rightarrow>
          (case f x' of
             None \<Rightarrow>
               lnsrch_armijo_loop f traj x0 p fx0 dg bt_factor ftol n (alpha * bt_factor) x' fx
           | Some fx' \<Rightarrow>
               if fx' < fx0 + alpha * ftol * dg then (True, x', alpha, fx')
               else lnsrch_armijo_loop f traj x0 p fx0 dg bt_factor ftol n
                      (alpha * bt_factor) x' fx'))"

text \<open>
  The statements after the loop: without success the step length is 0 and the point and
  the objective value are those of the start.
\<close>

definition lnsrch_armijo_return ::
  "vec \<Rightarrow> fl \<Rightarrow> bool \<times> vec \<times> fl \<times> fl \<Rightarrow> vec \<times> fl \<times> fl" where
  "lnsrch_armijo_return x0 fx0 r =
     (case r of (success, x, alpha, fx) \<Rightarrow>
        if \<not> success then (x0, Fin 0, fx0) else (x, alpha, fx))"

text \<open>
  \<open>lnsrch_armijo(f, g, p, x0, bt_factor, ftol, maxiter, trajectory)\<close>; the result is
  \<open>(x, alpha, fx)\<close>. The evaluation \<open>f(x0)\<close> stands outside the \<open>try\<close> block, so
  a \<open>BadStep\<close> raised there reaches the caller. The initial values \<open>x = np.copy(x0)\<close>
  and \<open>fx = np.inf\<close> enter the loop.
\<close>

definition lnsrch_armijo ::
  "objective \<Rightarrow> vec \<Rightarrow> vec \<Rightarrow> vec \<Rightarrow> fl \<Rightarrow> fl \<Rightarrow> int \<Rightarrow> trajectory option \<Rightarrow>
   error + (vec \<times> fl \<times> fl)" where
  "lnsrch_armijo f g p x0 bt_factor ftol maxiter trajectory =
     (let traj = (case trajectory of None \<Rightarrow> default_trajectory | Some t \<Rightarrow> t);
          dg = np_inner g p
      in if Fin 0 < dg then Inl NotDescent
         else
           (case f x0 of
              None \<Rightarrow> Inl BadStep
            | Some fx0 \<Rightarrow>
                Inr (lnsrch_armijo_return x0 fx0
                       (lnsrch_armijo_loop f traj x0 p fx0 dg bt_factor ftol (nat maxiter)
                          (Fin 1) x0 PInf))))"

section \<open>Gauss-Newton solver\<close>

text \<open>
  The residual \<open>f\<close> and the Jacobian \<open>F\<close> are pure functions. A line search is
  called as \<open>linesearch(objective, grad, dx, x, trajectory=trajectory)\<close> and returns
  \<open>(x_new, alpha, f_eval_new)\<close> or raises. A direction solver is called as
  \<open>gnsolver(F_eval, f_eval)\<close> and returns the step \<open>dx\<close> and the singular values
  \<open>s\<close>. The entries of \<open>s\<close> are numpy floats when \<open>s\<close> is an array, as scipy
  returns it, and Python floats when a solver returns a list: the two differ in the
  division \<open>s[0] / s[-1]\<close>, which raises for Python floats and a zero divisor and
  follows numpy as soon as one operand is a numpy float.
\<close>

datatype pynum = PyFloat fl | NpFloat fl

fun py_truediv :: "pynum \<Rightarrow> pynum \<Rightarrow> error + pynum" where
  "py_truediv (PyFloat a) (PyFloat b) =
     (if b = Fin 0 then Inl ZeroDivisionError else Inr (PyFloat (a / b)))"
| "py_truediv (PyFloat a) (NpFloat b) = Inr (NpFloat (a / b))"
| "py_truediv (NpFloat a) (PyFloat b) = Inr (NpFloat (a / b))"
| "py_truediv (NpFloat a) (NpFloat b) = Inr (NpFloat (a / b))"

text \<open>
  Line 160, \<open>cond = s[0] / s[-1]\<close>: indexing raises on an empty sequence, the division
  as above.
\<close>

definition condition_number :: "pynum list \<Rightarrow> error + pynum" where
  "condition_number s = (if s = [] then Inl IndexError else py_truediv (hd s) (last s))"

type_synonym residual = "vec \<Rightarrow> vec"
type_synonym jacobian = "vec \<Rightarrow> matrix"
type_synonym linesearch =
  "objective \<Rightarrow> vec \<Rightarrow> vec \<Rightarrow> vec \<Rightarrow> trajectory \<Rightarrow> error + (vec \<times> fl \<times> fl)"
type_synonym gnsolver = "matrix \<Rightarrow> vec \<Rightarrow> vec \<times> pynum list"
type_synonym lstsq_routine = "matrix \<Rightarrow> vec \<Rightarrow> vec \<times> fl list"

text \<open>
  The line search \<open>gn\<close> uses when none is given: \<open>lnsrch_armijo\<close> with its default
  \<open>bt_factor = 0.5\<close>, \<open>ftol = 1e-4\<close> and \<open>maxiter = 40\<close>.
\<close>

definition default_linesearch :: linesearch where
  "default_linesearch obj g p x0 traj =
     lnsrch_armijo obj g p x0 (Fin (1 / 2)) (Fin (1 / 10000)) 40 (Some traj)"

text \<open>
  Lines 148 to 151: the solve for the step. Without a \<open>gnsolver\<close> the step comes from
  scipy's \<open>lstsq(F_eval, -f_eval, lapack_driver = 'gelss')\<close>, a library routine that
  is a parameter \<open>lstsq\<close> here, giving the solution and the array of singular
  values.
\<close>

definition solve_direction ::
  "lstsq_routine \<Rightarrow> gnsolver option \<Rightarrow> matrix \<Rightarrow> vec \<Rightarrow> vec \<times> pynum list" where
  "solve_direction lstsq gnsolver F_eval f_eval =
     (case gnsolver of
        None \<Rightarrow> (case lstsq F_eval (np_neg f_eval) of (dx, s) \<Rightarrow> (dx, map NpFloat s))
      | Some gs \<Rightarrow> gs F_eval f_eval)"

text \<open>
  Lines 162 to 164: a Gauss-Newton step that is not a descent direction is replaced by
  the negative gradient.
\<close>

definition descent_direction :: "vec \<Rightarrow> vec \<Rightarrow> vec" where
  "descent_direction grad dx = (if Fin 0 \<le> np_inner grad dx then np_neg grad else dx)"

text \<open>
  The variables of \<open>gn\<close> after one pass through the loop body. \<open>st_saved\<close> holds the
  arrays \<open>A\<close> and \<open>b\<close> written to \<open>breaking_lstsq.npz\<close> in this pass, if any.
\<close>

record gn_state =
  st_x :: vec
  st_grad :: vec
  st_normgrad :: fl
  st_normdx :: fl
  st_f_eval :: vec
  st_f_eval_new :: fl
  st_residual_increased :: bool
  st_saved :: "(matrix \<times> vec) option"

text \<open>
  The loop body, lines 134 to 176, from the current \<open>x\<close> and \<open>grad\<close>. The finite
  difference check (off by default) and the printed table are left out: they assign no
  variable that is read later. The condition number \<open>cond\<close> is only printed, but
  computing it can raise.
\<close>

definition gn_body ::
  "lstsq_routine \<Rightarrow> residual \<Rightarrow> jacobian \<Rightarrow> linesearch \<Rightarrow> trajectory \<Rightarrow> gnsolver option \<Rightarrow>
   vec \<Rightarrow> vec \<Rightarrow> error + gn_state" where
  "gn_body lstsq f F linesearch trajectory gnsolver x grad =
     (let f_eval = f x;
          F_eval = F x;
          (dx, s) = solve_direction lstsq gnsolver F_eval f_eval;
          saved = (if \<not> all_isfinite dx then Some (F_eval, np_neg f_eval) else None)
      in case condition_number s of
           Inl e \<Rightarrow> Inl e
         | Inr cond \<Rightarrow>
           (let dx = descent_direction grad dx
            in case linesearch (\<lambda>x. Some (np_norm (f x))) grad dx x trajectory of
                 Inl e \<Rightarrow> Inl e
               | Inr (x_new, alpha, f_eval_new) \<Rightarrow>
                   (let residual_increased = (np_norm f_eval \<le> f_eval_new);
                        x = (if residual_increased then x else x_new);
                        grad = np_dot (np_T (F x)) (f x)
                    in Inr \<lparr>st_x = x, st_grad = grad, st_normgrad = np_norm grad,
                             st_normdx = np_norm dx, st_f_eval = f_eval,
                             st_f_eval_new = f_eval_new,
                             st_residual_increased = residual_increased, st_saved = saved\<rparr>)))"

text \<open>
  The \<open>for it in range(maxiter)\<close> loop from iteration \<open>it\<close> on: the three
  \<open>break\<close> tests in their order, then the next iteration if there is one. The result
  is the value of \<open>it\<close> and of the variables at loop exit.
\<close>

function gn_loop ::
  "lstsq_routine \<Rightarrow> residual \<Rightarrow> jacobian \<Rightarrow> fl \<Rightarrow> fl \<Rightarrow> int \<Rightarrow> linesearch \<Rightarrow> trajectory \<Rightarrow>
   gnsolver option \<Rightarrow> nat \<Rightarrow> vec \<Rightarrow> vec \<Rightarrow> error + (nat \<times> gn_state)" where
  "gn_loop lstsq f F tol tol_normdx maxiter linesearch trajectory gnsolver it x grad =
     (case gn_body lstsq f F linesearch trajectory gnsolver x grad of
        Inl e \<Rightarrow> Inl e
      | Inr st \<Rightarrow>
          if st_normgrad st < tol then Inr (it, st)
          else if st_normdx st < tol_normdx then Inr (it, st)
          else if st_residual_increased st then Inr (it, st)
          else if int it + 1 < maxiter then
            gn_loop lstsq f F tol tol_normdx maxiter linesearch trajectory gnsolver
              (it + 1) (st_x st) (st_grad st)
          else Inr (it, st))"
  by pat_completeness auto
termination
  by (relation "measure (\<lambda>(lstsq, f, F, tol, tol_normdx, maxiter, linesearch, trajectory,
        gnsolver, it, x, grad). nat maxiter - it)") auto

text \<open>
  Line 131: the gradient tolerance, rescaled by the norm of the gradient at \<open>x0\<close>.
\<close>

definition gn_tol :: "residual \<Rightarrow> jacobian \<Rightarrow> vec \<Rightarrow> fl \<Rightarrow> fl" where
  "gn_tol f F x0 tol =
     (let grad = np_dot (np_T (F x0)) (f x0);
          normgrad = np_norm grad
      in py_max (tol * normgrad) (Fin (1 / 10 ^ 14)))"

text \<open>
  Lines 120 to 189 for \<open>maxiter > 0\<close>: the defaults, the initial gradient and the loop.
\<close>

definition gn_run ::
  "lstsq_routine \<Rightarrow> residual \<Rightarrow> jacobian \<Rightarrow> vec \<Rightarrow> fl \<Rightarrow> fl \<Rightarrow> int \<Rightarrow> linesearch option \<Rightarrow>
   trajectory option \<Rightarrow> gnsolver option \<Rightarrow> error + (nat \<times> gn_state)" where
  "gn_run lstsq f F x0 tol tol_normdx maxiter linesearch trajectory gnsolver =
     (let trajectory = (case trajectory of None \<Rightarrow> default_trajectory | Some t \<Rightarrow> t);
          linesearch = (case linesearch of None \<Rightarrow> default_linesearch | Some l \<Rightarrow> l);
          x = x0;
          grad = np_dot (np_T (F x)) (f x)
      in gn_loop lstsq f F (gn_tol f F x0 tol) tol_normdx maxiter linesearch trajectory
           gnsolver 0 x grad)"

text \<open>
  Lines 191 to 208: the termination code, from the variables at loop exit.
\<close>

definition gn_info :: "fl \<Rightarrow> fl \<Rightarrow> int \<Rightarrow> nat \<Rightarrow> gn_state \<Rightarrow> error + nat" where
  "gn_info tol tol_normdx maxiter it st =
     (if st_normgrad st \<le> tol then Inr 0
      else if st_normdx st \<le> tol_normdx then Inr 1
      else if int it = maxiter - 1 then Inr 2
      else if np_norm (st_f_eval st) \<le> st_f_eval_new st then Inr 3
      else Inl StoppingCriteria)"

text \<open>
  \<open>gn(f, F, x0, tol, tol_normdx, maxiter, linesearch, trajectory, gnsolver)\<close>; the
  result is \<open>(x, info)\<close>.
\<close>

definition gn ::
  "lstsq_routine \<Rightarrow> residual \<Rightarrow> jacobian \<Rightarrow> vec \<Rightarrow> fl \<Rightarrow> fl \<Rightarrow> int \<Rightarrow> linesearch option \<Rightarrow>
   trajectory option \<Rightarrow> gnsolver option \<Rightarrow> error + (vec \<times> nat)" where
  "gn lstsq f F x0 tol tol_normdx maxiter linesearch trajectory gnsolver =
     (if maxiter \<le> 0 then Inr (x0, 4)
      else
        (case gn_run lstsq f F x0 tol tol_normdx maxiter linesearch trajectory gnsolver of
           Inl e \<Rightarrow> Inl e
         | Inr (it, st) \<Rightarrow>
             (case gn_info (gn_tol f F x0 tol) tol_normdx maxiter it st of
                Inl e \<Rightarrow> Inl e
              | Inr info \<Rightarrow> Inr (st_x st, info))))"

section \<open>The solver with its calls counted\<close>

text \<open>
  The same program, with a count of the calls \<open>gn\<close> makes to the residual \<open>f\<close>,
  the Jacobian \<open>F\<close>, the direction solver and the line search: each statement of
  \<open>gn\<close> that evaluates one of them adds to its count, in the order of the source. The
  evaluations of the objective inside a line search belong to that one call of the line
  search. A call that raises has been made.
\<close>

record calls =
  n_f :: nat
  n_F :: nat
  n_gnsolver :: nat
  n_linesearch :: nat

definition no_calls :: calls where
  "no_calls = \<lparr>n_f = 0, n_F = 0, n_gnsolver = 0, n_linesearch = 0\<rparr>"

definition gn_body_counted ::
  "lstsq_routine \<Rightarrow> residual \<Rightarrow> jacobian \<Rightarrow> linesearch \<Rightarrow> trajectory \<Rightarrow> gnsolver option \<Rightarrow>
   vec \<Rightarrow> vec \<Rightarrow> calls \<Rightarrow> (error + gn_state) \<times> calls" where
  "gn_body_counted lstsq f F linesearch trajectory gnsolver x grad c =
     (let f_eval = f x;
          c = c\<lparr>n_f := n_f c + 1\<rparr>;
          F_eval = F x;
          c = c\<lparr>n_F := n_F c + 1\<rparr>;
          (dx, s) = solve_direction lstsq gnsolver F_eval f_eval;
          c = c\<lparr>n_gnsolver := n_gnsolver c + 1\<rparr>;
          saved = (if \<not> all_isfinite dx then Some (F_eval, np_neg f_eval) else None)
      in case condition_number s of
           Inl e \<Rightarrow> (Inl e, c)
         | Inr cond \<Rightarrow>
           (let dx = descent_direction grad dx;
                r = linesearch (\<lambda>x. Some (np_norm (f x))) grad dx x trajectory;
                c = c\<lparr>n_linesearch := n_linesearch c + 1\<rparr>
            in case r of
                 Inl e \<Rightarrow> (Inl e, c)
               | Inr (x_new, alpha, f_eval_new) \<Rightarrow>
                   (let residual_increased = (np_norm f_eval \<le> f_eval_new);
                        x = (if residual_increased then x else x_new);
                        grad = np_dot (np_T (F x)) (f x);
                        c = c\<lparr>n_F := n_F c + 1, n_f := n_f c + 1\<rparr>
                    in (Inr \<lparr>st_x = x, st_grad = grad, st_normgrad = np_norm grad,
                              st_normdx = np_norm dx, st_f_eval = f_eval,
                              st_f_eval_new = f_eval_new,
                              st_residual_increased = residual_increased, st_saved = saved\<rparr>,
                        c))))"

function gn_loop_counted ::
  "lstsq_routine \<Rightarrow> residual \<Rightarrow> jacobian \<Rightarrow> fl \<Rightarrow> fl \<Rightarrow> int \<Rightarrow> linesearch \<Rightarrow> trajectory \<Rightarrow>
   gnsolver option \<Rightarrow> nat \<Rightarrow> vec \<Rightarrow> vec \<Rightarrow> calls \<Rightarrow> (error + (nat \<times> gn_state)) \<times> calls" where
  "gn_loop_counted lstsq f F tol tol_normdx maxiter linesearch trajectory gnsolver it x grad c =
     (case gn_body_counted lstsq f F linesearch trajectory gnsolver x grad c of
        (Inl e, c') \<Rightarrow> (Inl e, c')
      | (Inr st, c') \<Rightarrow>
          if st_normgrad st < tol then (Inr (it, st), c')
          else if st_normdx st < tol_normdx then (Inr (it, st), c')
          else if st_residual_increased st then (Inr (it, st), c')
          else if int it + 1 < maxiter then
            gn_loop_counted lstsq f F tol tol_normdx maxiter linesearch trajectory gnsolver
              (it + 1) (st_x st) (st_grad st) c'
          else (Inr (it, st), c'))"
  by pat_completeness auto
termination
  by (relation "measure (\<lambda>(lstsq, f, F, tol, tol_normdx, maxiter, linesearch, trajectory,
        gnsolver, it, x, grad, c). nat maxiter - it)") auto

definition gn_run_counted ::
  "lstsq_routine \<Rightarrow> residual \<Rightarrow> jacobian \<Rightarrow> vec \<Rightarrow> fl \<Rightarrow> fl \<Rightarrow> int \<Rightarrow> linesearch option \<Rightarrow>
   trajectory option \<Rightarrow> gnsolver option \<Rightarrow> (error + (nat \<times> gn_state)) \<times> calls" where
  "gn_run_counted lstsq f F x0 tol tol_normdx maxiter linesearch trajectory gnsolver =
     (let trajectory = (case trajectory of None \<Rightarrow> default_trajectory | Some t \<Rightarrow> t);
          linesearch = (case linesearch of None \<Rightarrow> default_linesearch | Some l \<Rightarrow> l);
          x = x0;
          grad = np_dot (np_T (F x)) (f x);
          c = no_calls\<lparr>n_F := 1, n_f := 1\<rparr>
      in gn_loop_counted lstsq f F (gn_tol f F x0 tol) tol_normdx maxiter linesearch trajectory
           gnsolver 0 x grad c)"

definition gn_counted ::
  "lstsq_routine \<Rightarrow> residual \<Rightarrow> jacobian \<Rightarrow> vec \<Rightarrow> fl \<Rightarrow> fl \<Rightarrow> int \<Rightarrow> linesearch option \<Rightarrow>
   trajectory option \<Rightarrow> gnsolver option \<Rightarrow> (error + (vec \<times> nat)) \<times> calls" where
  "gn_counted lstsq f F x0 tol tol_normdx maxiter linesearch trajectory gnsolver =
     (if maxiter \<le> 0 then (Inr (x0, 4), no_calls)
      else
        (case gn_run_counted lstsq f F x0 tol tol_normdx maxiter linesearch trajectory gnsolver of
           (Inl e, c) \<Rightarrow> (Inl e, c)
         | (Inr (it, st), c) \<Rightarrow>
             (case gn_info (gn_tol f F x0 tol) tol_normdx maxiter it st of
                Inl e \<Rightarrow> (Inl e, c)
              | Inr info \<Rightarrow> (Inr (st_x st, info), c))))"

section \<open>Example problems\<close>

text \<open>
  Problems with one residual and one unknown. The first is \<open>f(x) = x - 5\<close> with
  Jacobian 1, the second \<open>f(x) = x^2\<close> with Jacobian \<open>2x\<close>, whose gradient
  vanishes at 0.
\<close>

definition shift_residual :: residual where
  "shift_residual x = map (\<lambda>a. a + Fin (- 5)) x"

definition unit_jacobian :: jacobian where
  "unit_jacobian x = [[Fin 1]]"

definition square_residual :: residual where
  "square_residual x = map (\<lambda>a. a * a) x"

definition square_jacobian :: jacobian where
  "square_jacobian x = map (\<lambda>a. [Fin 2 * a]) x"

text \<open>
  What scipy's \<open>lstsq\<close> returns for a system \<open>a * dx = y\<close> with one equation and
  one unknown: the solution of least norm (0 for \<open>a = 0\<close>) and the singular value
  \<open>|a|\<close>.
\<close>

definition lstsq_1x1 :: lstsq_routine where
  "lstsq_1x1 A b =
     (case (A, b) of
        ([[Fin a]], [Fin y]) \<Rightarrow>
          if a = 0 then ([Fin 0], [Fin 0]) else ([Fin (y / a)], [Fin \<bar>a\<bar>])
      | _ \<Rightarrow> ([], []))"

text \<open>
  Direction solvers for the first problem: the exact step \<open>dx = -f_eval\<close>, reported
  with two different arrays of singular values, with none, and with a list of Python
  floats that ends in zero; and a solver whose step is not a number.
\<close>

definition exact_solver :: gnsolver where
  "exact_solver A b = (np_neg b, [NpFloat (Fin 1)])"

definition exact_solver_alt :: gnsolver where
  "exact_solver_alt A b = (np_neg b, [NpFloat (Fin 3), NpFloat (Fin 2)])"

definition exact_solver_empty :: gnsolver where
  "exact_solver_empty A b = (np_neg b, [])"

definition exact_solver_pyzero :: gnsolver where
  "exact_solver_pyzero A b = (np_neg b, [PyFloat (Fin 1), PyFloat (Fin 0)])"

definition nan_solver :: gnsolver where
  "nan_solver A b = ([NaN], [NpFloat (Fin 1)])"

text \<open>
  A residual that is not a number anywhere, and a line search that returns the point 7
  with a value that is not a number.
\<close>

definition nan_residual :: residual where
  "nan_residual x = map (\<lambda>a. NaN) x"

definition nan_value_search :: linesearch where
  "nan_value_search obj g p x traj = Inr ([Fin 7], Fin 1, NaN)"

text \<open>A trajectory that rejects the full step and is the default otherwise.\<close>

definition cautious_trajectory :: trajectory where
  "cautious_trajectory x0 p t = (if t = Fin 1 then None else default_trajectory x0 p t)"

section \<open>Properties of the float operations\<close>

declare gn_loop.simps [simp del]

declare gn_loop_counted.simps [simp del]

lemma fl_less_imp_le: "(a::fl) < b \<Longrightarrow> a \<le> b"
  by (cases a; cases b) simp_all

lemma fl_not_le_cases: "\<not> (a::fl) \<le> b \<Longrightarrow> b < a \<or> a = NaN \<or> b = NaN"
  by (cases a; cases b) simp_all

lemma fl_le_refl: "(a::fl) \<noteq> NaN \<Longrightarrow> a \<le> a"
  by (cases a) simp_all

lemma fl_sum_not_pos:
  "(\<And>a. a \<in> set xs \<Longrightarrow> \<not> Fin 0 < a) \<Longrightarrow> \<not> Fin 0 < fl_sum xs"
proof (induction xs)
  case Nil
  then show ?case by simp
next
  case (Cons a xs)
  have "\<not> Fin 0 < a" "\<not> Fin 0 < fl_sum xs" using Cons by simp_all
  then show ?case by (cases a; cases "fl_sum xs") simp_all
qed

lemma times_uminus_not_pos: "\<not> Fin 0 < (a::fl) * (- a)"
  by (cases a) (simp_all add: mult_le_0_iff not_less)

lemma np_inner_neg_not_pos: "\<not> Fin 0 < np_inner g (np_neg g)"
proof -
  have "a \<in> set (map2 (\<lambda>a b. a * b) g (map uminus g)) \<Longrightarrow> \<not> Fin 0 < a" for a
    by (auto simp: zip_map2 zip_same_conv_map times_uminus_not_pos)
  then show ?thesis unfolding np_inner_def np_neg_def by (rule fl_sum_not_pos)
qed



lemma np_norm_single: "np_norm [Fin a] = Fin \<bar>a\<bar>"
  by (simp add: np_norm_def)

lemma np_inner_Fin: "np_inner [Fin a] [Fin b] = Fin (a * b)"
  by (simp add: np_inner_def)

lemma np_dot_single: "np_dot (np_T [[Fin a]]) [Fin b] = [Fin (a * b)]"
  by (simp add: np_dot_def np_T_def np_inner_def)

lemma lstsq_1x1_simp:
  "lstsq_1x1 [[Fin a]] [Fin y] =
     (if a = 0 then ([Fin 0], [Fin 0]) else ([Fin (y / a)], [Fin \<bar>a\<bar>]))"
  by (simp add: lstsq_1x1_def)

section \<open>Properties of the line search\<close>

text \<open>
  With a negative slope and a non-negative \<open>ftol\<close>, a value below the Armijo bound
  is below the value at the start.
\<close>

lemma armijo_threshold:
  assumes "dg < Fin 0" "0 \<le> c" "y < Fin v + Fin c * dg"
  shows "y < Fin v"
  using assms
  by (cases dg; cases y)
     (auto split: if_splits simp: mult_nonneg_nonpos intro: less_le_trans)

lemma armijo_loop_success:
  assumes "dg < Fin 0" "0 < b" "b \<le> 1" "0 \<le> t"
  shows "0 < a \<Longrightarrow> a \<le> 1 \<Longrightarrow>
         lnsrch_armijo_loop f traj x0 p (Fin v) dg (Fin b) (Fin t) n (Fin a) x fx
           = (True, x', al, fx')
         \<Longrightarrow> \<exists>a'. al = Fin a' \<and> 0 < a' \<and> a' \<le> 1 \<and> f x' = Some fx' \<and> fx' < Fin v"
proof (induction n arbitrary: a x fx)
  case 0
  then show ?case by simp
next
  case (Suc n)
  have ab: "0 < a * b" "a * b \<le> 1"
    using Suc.prems(1,2) assms(2,3) by (simp_all add: mult_le_one)
  show ?case
  proof (cases "traj x0 p (Fin a)")
    case None
    with Suc.prems(3) Suc.IH[OF ab] show ?thesis by simp
  next
    case (Some y)
    note traj = this
    show ?thesis
    proof (cases "f y")
      case None
      with traj Suc.prems(3) Suc.IH[OF ab] show ?thesis by simp
    next
      case (Some fy)
      show ?thesis
      proof (cases "fy < Fin v + Fin a * Fin t * dg")
        case True
        with Some traj Suc.prems(3)
        have eq: "x' = y" "al = Fin a" "fx' = fy" by simp_all
        have "0 \<le> a * t" using Suc.prems(1) assms(4) by simp
        with True have "fy < Fin v"
          using armijo_threshold[OF assms(1), of "a * t" fy v] by simp
        with eq Some Suc.prems(1,2) show ?thesis by simp
      next
        case False
        with Some traj Suc.prems(3) Suc.IH[OF ab] show ?thesis by simp
      qed
    qed
  qed
qed

text \<open>A successful loop returns a point together with the objective value there.\<close>

lemma armijo_loop_value:
  "lnsrch_armijo_loop f traj x0 p fx0 dg bt_factor ftol n alpha x fx = (True, x', al, fx')
   \<Longrightarrow> f x' = Some fx'"
  by (induction n arbitrary: alpha x fx) (auto split: option.splits if_splits)

text \<open>
  The values of \<open>x\<close> and \<open>fx\<close> on entry to the loop do not show in what
  \<open>lnsrch_armijo\<close> returns.
\<close>

lemma armijo_return_indep:
  "lnsrch_armijo_return x0 fx0 (lnsrch_armijo_loop f traj x0 p fx0 dg bt ftol n alpha x fx) =
   lnsrch_armijo_return x0 fx0 (lnsrch_armijo_loop f traj x0 p fx0 dg bt ftol n alpha y fy)"
  by (induction n arbitrary: alpha x fx y fy)
     (auto simp: lnsrch_armijo_return_def split: option.splits)

lemma armijo_loop_fail:
  assumes "\<And>a x' fx'. traj x0 p (Fin a) = Some x' \<Longrightarrow> f x' = Some fx' \<Longrightarrow>
             \<not> fx' < fx0 + Fin a * ftol * dg"
  shows "fst (lnsrch_armijo_loop f traj x0 p fx0 dg (Fin b) ftol n (Fin a) x fx) = False"
  using assms by (induction n arbitrary: a x fx) (auto split: option.splits)

lemma armijo_return_fail:
  "fst r = False \<Longrightarrow> lnsrch_armijo_return x0 fx0 r = (x0, Fin 0, fx0)"
  by (cases r) (simp add: lnsrch_armijo_return_def)

lemma armijo_loop_pos:
  "0 < n \<Longrightarrow> lnsrch_armijo_loop f traj x0 p fx0 dg bt_factor ftol n alpha x fx =
     (case traj x0 p alpha of
        None \<Rightarrow>
          lnsrch_armijo_loop f traj x0 p fx0 dg bt_factor ftol (n - 1) (alpha * bt_factor) x fx
      | Some x' \<Rightarrow>
          (case f x' of
             None \<Rightarrow>
               lnsrch_armijo_loop f traj x0 p fx0 dg bt_factor ftol (n - 1)
                 (alpha * bt_factor) x' fx
           | Some fx' \<Rightarrow>
               if fx' < fx0 + alpha * ftol * dg then (True, x', alpha, fx')
               else lnsrch_armijo_loop f traj x0 p fx0 dg bt_factor ftol (n - 1)
                      (alpha * bt_factor) x' fx'))"
  by (cases n) (auto split: option.splits)

text \<open>
  C1. For a direction of negative slope \<open>inner(g, p) < 0\<close> and a start \<open>x0\<close> with a
  finite objective value \<open>v\<close>, \<open>lnsrch_armijo\<close> with a backtracking factor in
  \<open>(0, 1]\<close> and a non-negative \<open>ftol\<close> has one of two outcomes, whatever the
  objective, the trajectory and \<open>maxiter\<close>: it returns a step length \<open>alpha\<close> in
  \<open>(0, 1]\<close> with a point whose objective value is the returned one and is strictly
  below \<open>v\<close>, or it returns \<open>alpha = 0\<close> with the point \<open>x0\<close> and the value \<open>v\<close>.
\<close>

theorem lnsrch_armijo_outcome:
  assumes "np_inner g p < Fin 0" and "f x0 = Some (Fin v)"
      and "0 < b" and "b \<le> 1" and "0 \<le> t"
  shows "(\<exists>x a fx. lnsrch_armijo f g p x0 (Fin b) (Fin t) maxiter trajectory = Inr (x, Fin a, fx)
            \<and> 0 < a \<and> a \<le> 1 \<and> f x = Some fx \<and> fx < Fin v)
         \<or> lnsrch_armijo f g p x0 (Fin b) (Fin t) maxiter trajectory = Inr (x0, Fin 0, Fin v)"
proof -
  define traj where "traj = (case trajectory of None \<Rightarrow> default_trajectory | Some t \<Rightarrow> t)"
  define r where "r = lnsrch_armijo_loop f traj x0 p (Fin v) (np_inner g p) (Fin b) (Fin t)
                        (nat maxiter) (Fin 1) x0 PInf"
  have nd: "\<not> Fin 0 < np_inner g p"
    using assms(1) by (cases "np_inner g p") simp_all
  have res: "lnsrch_armijo f g p x0 (Fin b) (Fin t) maxiter trajectory
               = Inr (lnsrch_armijo_return x0 (Fin v) r)"
    using nd assms(2) by (simp add: lnsrch_armijo_def traj_def r_def)
  obtain s x al fx where r: "r = (s, x, al, fx)" by (cases r) auto
  show ?thesis
  proof (cases s)
    case True
    from armijo_loop_success[OF assms(1,3,4,5), of 1 f traj x0 p v "nat maxiter" x0 PInf x al fx]
      r True r_def
    obtain a' where "al = Fin a'" "0 < a'" "a' \<le> 1" "f x = Some fx" "fx < Fin v" by auto
    with res r True show ?thesis by (simp add: lnsrch_armijo_return_def)
  next
    case False
    with res r show ?thesis by (simp add: lnsrch_armijo_return_def)
  qed
qed

theorem lnsrch_armijo_outcome_witness:
  "np_inner [Fin 2] [Fin (- 1)] < Fin 0
   \<and> (\<lambda>x. Some (np_inner x x)) [Fin 1] = Some (Fin 1)
   \<and> (0::real) < 1 / 2 \<and> (1::real) / 2 \<le> 1 \<and> (0::real) \<le> 1 / 10000
   \<and> lnsrch_armijo (\<lambda>x. Some (np_inner x x)) [Fin 2] [Fin (- 1)] [Fin 1]
        (Fin (1 / 2)) (Fin (1 / 10000)) 40 None = Inr ([Fin 0], Fin 1, Fin 0)"
proof -
  have h1: "np_inner [Fin 2] [Fin (- 1)] < Fin 0" by (simp add: np_inner_def)
  have h2: "(\<lambda>x. Some (np_inner x x)) [Fin 1] = Some (Fin 1)" by (simp add: np_inner_def)
  have ev: "lnsrch_armijo (\<lambda>x. Some (np_inner x x)) [Fin 2] [Fin (- 1)] [Fin 1]
        (Fin (1 / 2)) (Fin (1 / 10000)) 40 None = Inr ([Fin 0], Fin 1, Fin 0)"
    by (simp add: lnsrch_armijo_def armijo_loop_pos np_inner_def default_trajectory_def
          np_add_def np_scale_def lnsrch_armijo_return_def)
  from lnsrch_armijo_outcome[where g = "[Fin 2]" and p = "[Fin (- 1)]"
      and f = "\<lambda>x. Some (np_inner x x)" and ?x0.0 = "[Fin 1]" and v = 1
      and b = "1 / 2" and t = "1 / 10000" and maxiter = 40 and trajectory = None] h1 h2 ev
  show ?thesis by simp
qed

text \<open>
  C4, as the code has it. \<open>lnsrch_armijo\<close> raises its exception for a non-descent
  direction exactly when the slope \<open>inner(g, p)\<close> is strictly positive. A slope of
  zero, as for any direction at a zero gradient, is accepted and the search is performed.
\<close>

theorem lnsrch_armijo_raises_iff:
  "(lnsrch_armijo f g p x0 bt_factor ftol maxiter trajectory = Inl NotDescent)
     = (Fin 0 < np_inner g p)"
  by (simp add: lnsrch_armijo_def Let_def split: option.splits)

theorem lnsrch_armijo_raises_iff_witness:
  "lnsrch_armijo (\<lambda>x. Some (np_inner x x)) [Fin 1] [Fin 1] [Fin 0] (Fin (1 / 2))
      (Fin (1 / 10000)) 40 None = Inl NotDescent"
  using lnsrch_armijo_raises_iff[of "\<lambda>x. Some (np_inner x x)" "[Fin 1]" "[Fin 1]" "[Fin 0]"
      "Fin (1 / 2)" "Fin (1 / 10000)" 40 None]
  by (simp add: np_inner_def)

text \<open>
  C4 as stated fails: for the zero gradient and the nonzero direction \<open>p = [1]\<close> the
  slope is \<open>0 >= 0\<close>, and the call performs the search (forty trials, none accepted)
  and returns the start with \<open>alpha = 0\<close> instead of raising.
\<close>

theorem zero_slope_not_raised:
  "Fin 0 \<le> np_inner [Fin 0] [Fin 1]
   \<and> lnsrch_armijo (\<lambda>x. Some (np_inner x x)) [Fin 0] [Fin 1] [Fin 0] (Fin (1 / 2))
        (Fin (1 / 10000)) 40 None = Inr ([Fin 0], Fin 0, Fin 0)"
proof -
  have "fst (lnsrch_armijo_loop (\<lambda>x. Some (np_inner x x)) default_trajectory [Fin 0] [Fin 1]
          (Fin 0) (Fin 0) (Fin (1 / 2)) (Fin (1 / 10000)) (nat 40) (Fin 1) [Fin 0] PInf) = False"
    by (rule armijo_loop_fail)
       (auto simp: default_trajectory_def np_add_def np_scale_def np_inner_def)
  then show ?thesis
    by (simp add: lnsrch_armijo_def np_inner_def armijo_return_fail Let_def del: nat_numeral)
qed

text \<open>
  C7. A trial in which the trajectory or the objective raises \<open>BadStep\<close> continues
  the loop exactly as a trial that fails the Armijo test does: what \<open>lnsrch_armijo\<close>
  returns is what the remaining trials, started at \<open>alpha * bt_factor\<close>, return. The
  exception does not leave the loop: \<open>lnsrch_armijo\<close> raises \<open>BadStep\<close> only when
  the evaluation \<open>f(x0)\<close> before the loop does.
\<close>

theorem badstep_backtracks:
  "((traj x0 p alpha = None \<or> (\<exists>x'. traj x0 p alpha = Some x' \<and> f x' = None)
      \<or> (\<exists>x' fx'. traj x0 p alpha = Some x' \<and> f x' = Some fx'
            \<and> \<not> fx' < fx0 + alpha * ftol * dg)) \<longrightarrow>
     lnsrch_armijo_return x0 fx0
       (lnsrch_armijo_loop f traj x0 p fx0 dg bt_factor ftol (Suc n) alpha x fx) =
     lnsrch_armijo_return x0 fx0
       (lnsrch_armijo_loop f traj x0 p fx0 dg bt_factor ftol n (alpha * bt_factor) x fx))
   \<and> (lnsrch_armijo f g p x0 bt_factor ftol maxiter trajectory = Inl BadStep \<longrightarrow> f x0 = None)"
proof (intro conjI impI)
  assume "traj x0 p alpha = None \<or> (\<exists>x'. traj x0 p alpha = Some x' \<and> f x' = None)
      \<or> (\<exists>x' fx'. traj x0 p alpha = Some x' \<and> f x' = Some fx'
            \<and> \<not> fx' < fx0 + alpha * ftol * dg)"
  then show "lnsrch_armijo_return x0 fx0
       (lnsrch_armijo_loop f traj x0 p fx0 dg bt_factor ftol (Suc n) alpha x fx) =
     lnsrch_armijo_return x0 fx0
       (lnsrch_armijo_loop f traj x0 p fx0 dg bt_factor ftol n (alpha * bt_factor) x fx)"
    by (auto intro: armijo_return_indep)
next
  assume "lnsrch_armijo f g p x0 bt_factor ftol maxiter trajectory = Inl BadStep"
  then show "f x0 = None"
    by (simp add: lnsrch_armijo_def Let_def split: if_splits option.splits)
qed

theorem badstep_backtracks_witness:
  "cautious_trajectory [Fin 1] [Fin (- 1)] (Fin 1) = None
   \<and> lnsrch_armijo_return [Fin 1] (Fin 1)
        (lnsrch_armijo_loop (\<lambda>x. Some (np_inner x x)) cautious_trajectory [Fin 1] [Fin (- 1)]
           (Fin 1) (Fin (- 2)) (Fin (1 / 2)) (Fin (1 / 10000)) (Suc 39) (Fin 1) [Fin 1] PInf)
      = ([Fin (1 / 2)], Fin (1 / 2), Fin (1 / 4))
   \<and> lnsrch_armijo (\<lambda>x. None) [Fin 2] [Fin (- 1)] [Fin 1] (Fin (1 / 2)) (Fin (1 / 10000)) 40
        None = Inl BadStep"
proof -
  have rej: "cautious_trajectory [Fin 1] [Fin (- 1)] (Fin 1) = None"
    by (simp add: cautious_trajectory_def)
  have rest: "lnsrch_armijo_return [Fin 1] (Fin 1)
        (lnsrch_armijo_loop (\<lambda>x. Some (np_inner x x)) cautious_trajectory [Fin 1] [Fin (- 1)]
           (Fin 1) (Fin (- 2)) (Fin (1 / 2)) (Fin (1 / 10000)) 39 (Fin 1 * Fin (1 / 2))
           [Fin 1] PInf)
      = ([Fin (1 / 2)], Fin (1 / 2), Fin (1 / 4))"
    by (simp add: armijo_loop_pos cautious_trajectory_def default_trajectory_def np_add_def
          np_scale_def np_inner_def lnsrch_armijo_return_def)
  have raised: "lnsrch_armijo (\<lambda>x. None) [Fin 2] [Fin (- 1)] [Fin 1] (Fin (1 / 2))
        (Fin (1 / 10000)) 40 None = Inl BadStep"
    by (simp add: lnsrch_armijo_def np_inner_def)
  from badstep_backtracks[where traj = cautious_trajectory and ?x0.0 = "[Fin 1]"
      and p = "[Fin (- 1)]" and alpha = "Fin 1" and f = "\<lambda>x. Some (np_inner x x)"
      and ?fx0.0 = "Fin 1" and ftol = "Fin (1 / 10000)" and dg = "Fin (- 2)"
      and bt_factor = "Fin (1 / 2)" and n = 39 and x = "[Fin 1]" and fx = PInf
      and g = "[Fin 2]" and maxiter = 40 and trajectory = None] rej
  have "lnsrch_armijo_return [Fin 1] (Fin 1)
        (lnsrch_armijo_loop (\<lambda>x. Some (np_inner x x)) cautious_trajectory [Fin 1] [Fin (- 1)]
           (Fin 1) (Fin (- 2)) (Fin (1 / 2)) (Fin (1 / 10000)) (Suc 39) (Fin 1) [Fin 1] PInf)
      = lnsrch_armijo_return [Fin 1] (Fin 1)
        (lnsrch_armijo_loop (\<lambda>x. Some (np_inner x x)) cautious_trajectory [Fin 1] [Fin (- 1)]
           (Fin 1) (Fin (- 2)) (Fin (1 / 2)) (Fin (1 / 10000)) 39 (Fin 1 * Fin (1 / 2))
           [Fin 1] PInf)"
    by blast
  with rest rej raised show ?thesis by simp
qed

section \<open>Properties of the solver\<close>

lemma descent_direction_not_ascent: "\<not> Fin 0 < np_inner grad (descent_direction grad dx)"
proof (cases "Fin 0 \<le> np_inner grad dx")
  case True
  then show ?thesis by (simp add: descent_direction_def np_inner_neg_not_pos)
next
  case False
  then show ?thesis
    by (cases "np_inner grad dx") (simp_all add: descent_direction_def)
qed


lemma default_linesearch_result:
  "\<not> Fin 0 < np_inner g p \<Longrightarrow>
   default_linesearch (\<lambda>x. Some (h x)) g p x0 traj =
     Inr (lnsrch_armijo_return x0 (h x0)
            (lnsrch_armijo_loop (\<lambda>x. Some (h x)) traj x0 p (h x0) (np_inner g p)
               (Fin (1 / 2)) (Fin (1 / 10000)) (nat 40) (Fin 1) x0 PInf))"
  by (simp add: default_linesearch_def lnsrch_armijo_def Let_def del: nat_numeral)

lemma gn_body_residual_increased:
  "gn_body lstsq f F linesearch trajectory gnsolver x grad = Inr st \<Longrightarrow>
   st_residual_increased st = (np_norm (st_f_eval st) \<le> st_f_eval_new st)"
  by (auto simp: gn_body_def Let_def split: prod.splits if_splits sum.splits)

lemma gn_loop_error:
  "gn_body lstsq f F linesearch trajectory gnsolver x grad = Inl e \<Longrightarrow>
   gn_loop lstsq f F tol tol_normdx maxiter linesearch trajectory gnsolver it x grad = Inl e"
  by (subst gn_loop.simps) simp

lemma gn_loop_step:
  "gn_body lstsq f F linesearch trajectory gnsolver x grad = Inr st \<Longrightarrow>
   gn_loop lstsq f F tol tol_normdx maxiter linesearch trajectory gnsolver it x grad =
     (if st_normgrad st < tol \<or> st_normdx st < tol_normdx \<or> st_residual_increased st
         \<or> \<not> int it + 1 < maxiter
      then Inr (it, st)
      else gn_loop lstsq f F tol tol_normdx maxiter linesearch trajectory gnsolver
             (it + 1) (st_x st) (st_grad st))"
  by (subst gn_loop.simps) simp

text \<open>
  At loop exit one of the three \<open>break\<close> tests held or the last iteration was reached,
  and the flag \<open>residual_increased\<close> is the last test of the classification.
\<close>

lemma gn_loop_exit:
  "gn_loop lstsq f F tol tol_normdx maxiter linesearch trajectory gnsolver it x grad
      = Inr (it', st) \<Longrightarrow> int it < maxiter \<Longrightarrow>
   (st_normgrad st < tol \<or> st_normdx st < tol_normdx \<or> st_residual_increased st
      \<or> int it' = maxiter - 1)
   \<and> st_residual_increased st = (np_norm (st_f_eval st) \<le> st_f_eval_new st)"
proof (induction lstsq f F tol tol_normdx maxiter linesearch trajectory gnsolver it x grad
    rule: gn_loop.induct)
  case (1 lstsq f F tol tol_normdx maxiter linesearch trajectory gnsolver it x grad)
  show ?case
  proof (cases "gn_body lstsq f F linesearch trajectory gnsolver x grad")
    case (Inl e)
    from gn_loop_error[OF Inl] "1.prems"(1) show ?thesis by simp
  next
    case (Inr st0)
    note step = gn_loop_step[OF Inr, of tol tol_normdx maxiter it]
    show ?thesis
    proof (cases "st_normgrad st0 < tol \<or> st_normdx st0 < tol_normdx
                    \<or> st_residual_increased st0 \<or> \<not> int it + 1 < maxiter")
      case True
      with step "1.prems"(1) have "it' = it" "st = st0" by simp_all
      with True "1.prems"(2) gn_body_residual_increased[OF Inr] show ?thesis by auto
    next
      case False
      with step "1.prems"(1) have
        "gn_loop lstsq f F tol tol_normdx maxiter linesearch trajectory gnsolver (it + 1)
           (st_x st0) (st_grad st0) = Inr (it', st)"
        by simp
      with "1.IH"[OF Inr] False show ?thesis by auto
    qed
  qed
qed

text \<open>The first problem, run from \<open>x0 = 0\<close> with the defaults: one iteration.\<close>

lemma shift_linesearch:
  "default_linesearch (\<lambda>x. Some (np_norm (shift_residual x))) [Fin (- 5)] [Fin 5]
     [Fin 0] default_trajectory = Inr ([Fin 5], Fin 1, Fin 0)"
  by (simp add: default_linesearch_def lnsrch_armijo_def np_inner_Fin armijo_loop_pos
        default_trajectory_def np_add_def np_scale_def shift_residual_def np_norm_single
        lnsrch_armijo_return_def)

lemma shift_body:
  "gn_body lstsq_1x1 shift_residual unit_jacobian default_linesearch default_trajectory
     None [Fin 0] [Fin (- 5)] =
   Inr \<lparr>st_x = [Fin 5], st_grad = [Fin 0], st_normgrad = Fin 0, st_normdx = Fin 5,
        st_f_eval = [Fin (- 5)], st_f_eval_new = Fin 0, st_residual_increased = False,
        st_saved = None\<rparr>"
  by (simp add: gn_body_def solve_direction_def lstsq_1x1_simp shift_residual_def
        unit_jacobian_def np_neg_def all_isfinite_def descent_direction_def np_inner_Fin
        shift_linesearch[unfolded shift_residual_def] np_norm_single np_dot_single
        condition_number_def)

lemma shift_grad: "np_dot (np_T (unit_jacobian [Fin 0])) (shift_residual [Fin 0]) = [Fin (- 5)]"
  by (simp add: unit_jacobian_def shift_residual_def np_dot_single)

lemma shift_tol:
  "gn_tol shift_residual unit_jacobian [Fin 0] (Fin (1 / 100000)) = Fin (1 / 20000)"
  by (simp add: gn_tol_def shift_grad np_norm_single py_max_def)

lemma shift_run:
  "gn_run lstsq_1x1 shift_residual unit_jacobian [Fin 0] (Fin (1 / 100000))
     (Fin (1 / 1000000000000)) 100 None None None =
   Inr (0, \<lparr>st_x = [Fin 5], st_grad = [Fin 0], st_normgrad = Fin 0, st_normdx = Fin 5,
        st_f_eval = [Fin (- 5)], st_f_eval_new = Fin 0, st_residual_increased = False,
        st_saved = None\<rparr>)"
  by (simp add: gn_run_def Let_def shift_grad shift_tol gn_loop_step[OF shift_body])

text \<open>
  C3. When a call of \<open>gn\<close> with \<open>maxiter > 0\<close> leaves its loop at iteration \<open>it\<close>
  with the variables \<open>st\<close>, it returns the iterate with the code given by the first
  test that holds: 0 if the gradient norm is at most the rescaled tolerance, else 1 if
  the step norm is at most \<open>tol_normdx\<close>, else 2 if \<open>it = maxiter - 1\<close>, else 3. One
  of the four tests, the last being that the line search did not give a value strictly
  below the residual norm, always holds; so the final \<open>raise\<close> is never reached.
\<close>

theorem gn_termination_code:
  assumes "0 < maxiter"
      and "gn_run lstsq f F x0 tol tol_normdx maxiter linesearch trajectory gnsolver = Inr (it, st)"
  shows "gn lstsq f F x0 tol tol_normdx maxiter linesearch trajectory gnsolver =
           Inr (st_x st,
                if st_normgrad st \<le> gn_tol f F x0 tol then 0
                else if st_normdx st \<le> tol_normdx then 1
                else if int it = maxiter - 1 then 2
                else 3)
         \<and> (st_normgrad st \<le> gn_tol f F x0 tol \<or> st_normdx st \<le> tol_normdx
              \<or> int it = maxiter - 1 \<or> np_norm (st_f_eval st) \<le> st_f_eval_new st)"
proof -
  from assms have
    "(st_normgrad st < gn_tol f F x0 tol \<or> st_normdx st < tol_normdx \<or> st_residual_increased st
        \<or> int it = maxiter - 1)
     \<and> st_residual_increased st = (np_norm (st_f_eval st) \<le> st_f_eval_new st)"
    unfolding gn_run_def Let_def by (intro gn_loop_exit) auto
  then have ex: "st_normgrad st \<le> gn_tol f F x0 tol \<or> st_normdx st \<le> tol_normdx
              \<or> int it = maxiter - 1 \<or> np_norm (st_f_eval st) \<le> st_f_eval_new st"
    by (auto dest: fl_less_imp_le)
  with assms show ?thesis by (auto simp: gn_def gn_info_def)
qed

theorem gn_termination_code_witness:
  "(0::int) < 100
   \<and> gn_run lstsq_1x1 shift_residual unit_jacobian [Fin 0] (Fin (1 / 100000))
        (Fin (1 / 1000000000000)) 100 None None None =
      Inr (0, \<lparr>st_x = [Fin 5], st_grad = [Fin 0], st_normgrad = Fin 0, st_normdx = Fin 5,
        st_f_eval = [Fin (- 5)], st_f_eval_new = Fin 0, st_residual_increased = False,
        st_saved = None\<rparr>)
   \<and> gn lstsq_1x1 shift_residual unit_jacobian [Fin 0] (Fin (1 / 100000))
        (Fin (1 / 1000000000000)) 100 None None None = Inr ([Fin 5], 0)"
proof -
  have pos: "(0::int) < 100" by simp
  from gn_termination_code[OF pos shift_run] pos shift_run show ?thesis
    by (simp add: shift_tol)
qed

text \<open>The counted program returns what \<open>gn\<close> returns.\<close>

lemma gn_body_counted_result:
  "fst (gn_body_counted lstsq f F linesearch trajectory gnsolver x grad c)
     = gn_body lstsq f F linesearch trajectory gnsolver x grad"
  by (simp add: gn_body_counted_def gn_body_def Let_def split: prod.splits sum.splits)

lemma gn_loop_counted_result:
  "fst (gn_loop_counted lstsq f F tol tol_normdx maxiter linesearch trajectory gnsolver it x
          grad c)
     = gn_loop lstsq f F tol tol_normdx maxiter linesearch trajectory gnsolver it x grad"
proof (induction "nat maxiter - it" arbitrary: it x grad c rule: less_induct)
  case less
  obtain r c' where b: "gn_body_counted lstsq f F linesearch trajectory gnsolver x grad c = (r, c')"
    by force
  with gn_body_counted_result[of lstsq f F linesearch trajectory gnsolver x grad c]
  have r: "gn_body lstsq f F linesearch trajectory gnsolver x grad = r" by simp
  show ?case
  proof (cases r)
    case (Inl e)
    with b r show ?thesis
      by (subst gn_loop_counted.simps) (simp add: gn_loop_error)
  next
    case (Inr st)
    note step = gn_loop_step[OF r[unfolded Inr], of tol tol_normdx maxiter it]
    show ?thesis
    proof (cases "st_normgrad st < tol \<or> st_normdx st < tol_normdx
                    \<or> st_residual_increased st \<or> \<not> int it + 1 < maxiter")
      case True
      with b Inr step show ?thesis
        by (subst gn_loop_counted.simps) auto
    next
      case False
      then have "nat maxiter - (it + 1) < nat maxiter - it" by auto
      from less.hyps[OF this] b Inr step False show ?thesis
        by (subst gn_loop_counted.simps) auto
    qed
  qed
qed

lemma gn_loop_counted_step:
  "gn_body_counted lstsq f F linesearch trajectory gnsolver x grad c = (Inr st, c') \<Longrightarrow>
   gn_loop_counted lstsq f F tol tol_normdx maxiter linesearch trajectory gnsolver it x grad c =
     (if st_normgrad st < tol \<or> st_normdx st < tol_normdx \<or> st_residual_increased st
         \<or> \<not> int it + 1 < maxiter
      then (Inr (it, st), c')
      else gn_loop_counted lstsq f F tol tol_normdx maxiter linesearch trajectory gnsolver
             (it + 1) (st_x st) (st_grad st) c')"
  by (subst gn_loop_counted.simps) simp

lemma gn_counted_result:
  "fst (gn_counted lstsq f F x0 tol tol_normdx maxiter linesearch trajectory gnsolver)
     = gn lstsq f F x0 tol tol_normdx maxiter linesearch trajectory gnsolver"
proof -
  have "fst (gn_run_counted lstsq f F x0 tol tol_normdx maxiter linesearch trajectory gnsolver)
          = gn_run lstsq f F x0 tol tol_normdx maxiter linesearch trajectory gnsolver"
    by (simp add: gn_run_counted_def gn_run_def Let_def gn_loop_counted_result)
  then show ?thesis
    by (auto simp: gn_counted_def gn_def split: prod.splits sum.splits)
qed

lemma shift_body_counted:
  "gn_body_counted lstsq_1x1 shift_residual unit_jacobian default_linesearch default_trajectory
     None [Fin 0] [Fin (- 5)] c =
   (Inr \<lparr>st_x = [Fin 5], st_grad = [Fin 0], st_normgrad = Fin 0, st_normdx = Fin 5,
        st_f_eval = [Fin (- 5)], st_f_eval_new = Fin 0, st_residual_increased = False,
        st_saved = None\<rparr>,
    c\<lparr>n_f := n_f c + 2, n_F := n_F c + 2, n_gnsolver := n_gnsolver c + 1,
       n_linesearch := n_linesearch c + 1\<rparr>)"
  by (simp add: gn_body_counted_def solve_direction_def lstsq_1x1_simp shift_residual_def
        unit_jacobian_def np_neg_def all_isfinite_def descent_direction_def np_inner_Fin
        shift_linesearch[unfolded shift_residual_def] np_norm_single np_dot_single
        condition_number_def)

text \<open>
  C8. With \<open>maxiter <= 0\<close>, \<open>gn\<close> returns the initial point unchanged with the code
  4, and it has then called the residual, the Jacobian, the direction solver and the line
  search zero times each.
\<close>

theorem gn_degenerate:
  "maxiter \<le> 0 \<Longrightarrow>
     gn lstsq f F x0 tol tol_normdx maxiter linesearch trajectory gnsolver = Inr (x0, 4)
     \<and> gn_counted lstsq f F x0 tol tol_normdx maxiter linesearch trajectory gnsolver =
         (Inr (x0, 4), \<lparr>n_f = 0, n_F = 0, n_gnsolver = 0, n_linesearch = 0\<rparr>)"
  by (simp add: gn_def gn_counted_def no_calls_def)

text \<open>
  An instance with \<open>maxiter = 0\<close>; the same problem with \<open>maxiter = 100\<close> takes one
  iteration and counts three calls of the residual and of the Jacobian and one of the
  solver and of the line search.
\<close>

theorem gn_degenerate_witness:
  "(0::int) \<le> 0
   \<and> gn lstsq_1x1 shift_residual unit_jacobian [Fin 0] (Fin (1 / 100000))
        (Fin (1 / 1000000000000)) 0 None None None = Inr ([Fin 0], 4)
   \<and> gn_counted lstsq_1x1 shift_residual unit_jacobian [Fin 0] (Fin (1 / 100000))
        (Fin (1 / 1000000000000)) 0 None None None =
      (Inr ([Fin 0], 4), \<lparr>n_f = 0, n_F = 0, n_gnsolver = 0, n_linesearch = 0\<rparr>)
   \<and> gn_counted lstsq_1x1 shift_residual unit_jacobian [Fin 0] (Fin (1 / 100000))
        (Fin (1 / 1000000000000)) 100 None None None =
      (Inr ([Fin 5], 0), \<lparr>n_f = 3, n_F = 3, n_gnsolver = 1, n_linesearch = 1\<rparr>)"
proof -
  have run: "gn_counted lstsq_1x1 shift_residual unit_jacobian [Fin 0] (Fin (1 / 100000))
        (Fin (1 / 1000000000000)) 100 None None None =
      (Inr ([Fin 5], 0), \<lparr>n_f = 3, n_F = 3, n_gnsolver = 1, n_linesearch = 1\<rparr>)"
    by (simp add: gn_counted_def gn_run_counted_def Let_def shift_grad shift_tol
          gn_loop_counted_step[OF shift_body_counted] gn_info_def no_calls_def)
  from gn_degenerate[of 0 lstsq_1x1 shift_residual unit_jacobian "[Fin 0]" "Fin (1 / 100000)"
      "Fin (1 / 1000000000000)" None None None] run
  show ?thesis by simp
qed

section \<open>Further properties of the solver\<close>

lemma fl_less_not_le: "(a::fl) < b \<Longrightarrow> \<not> b \<le> a"
  by (cases a; cases b) simp_all

lemma fl_not_less_le: "(a::fl) \<noteq> NaN \<Longrightarrow> b \<noteq> NaN \<Longrightarrow> \<not> a < b \<Longrightarrow> b \<le> a"
  by (cases a; cases b) simp_all

lemma fl_not_less_NaN: "\<not> (a::fl) < NaN"
  by (cases a) simp_all

lemma np_norm_NaN: "np_norm [NaN] = NaN"
  by (simp add: np_norm_def)

lemma default_linesearch_honest:
  "default_linesearch obj g p y tr = Inr (xn, a, fn) \<Longrightarrow> obj xn = Some fn"
proof -
  assume r: "default_linesearch obj g p y tr = Inr (xn, a, fn)"
  then obtain fy where fy: "obj y = Some fy"
    by (auto simp: default_linesearch_def lnsrch_armijo_def Let_def
          split: if_splits option.splits)
  obtain s x' al fx' where l:
    "lnsrch_armijo_loop obj tr y p fy (np_inner g p) (Fin (1 / 2)) (Fin (1 / 10000)) (nat 40)
       (Fin 1) y PInf = (s, x', al, fx')"
    by (metis prod_cases4)
  show ?thesis
  proof (cases s)
    case True
    with r fy l armijo_loop_value[of obj tr y p fy "np_inner g p" "Fin (1 / 2)"
        "Fin (1 / 10000)" "nat 40" "Fin 1" y PInf x' al fx']
    show ?thesis
      by (auto simp: default_linesearch_def lnsrch_armijo_def Let_def lnsrch_armijo_return_def
            split: if_splits simp del: nat_numeral)
  next
    case False
    with r fy l show ?thesis
      by (auto simp: default_linesearch_def lnsrch_armijo_def Let_def lnsrch_armijo_return_def
            split: if_splits simp del: nat_numeral)
  qed
qed

lemma armijo_loop_alpha_pos:
  "0 < a \<Longrightarrow> 0 < b \<Longrightarrow>
   lnsrch_armijo_loop f traj x0 p fx0 dg (Fin b) ftol n (Fin a) x fx = (True, x', al, fx')
   \<Longrightarrow> \<exists>a'. al = Fin a' \<and> 0 < a'"
proof (induction n arbitrary: a x fx)
  case 0
  then show ?case by simp
next
  case (Suc n)
  have ab: "0 < a * b" using Suc.prems(1,2) by simp
  from Suc.prems(3) Suc.IH[OF ab Suc.prems(2)] Suc.prems(1) show ?case
    by (auto split: option.splits if_splits)
qed

lemma default_linesearch_zero_step:
  assumes "default_linesearch (\<lambda>y. Some (h y)) g p x tr = Inr (xn, Fin 0, fn)"
  shows "xn = x \<and> fn = h x"
proof -
  have nd: "\<not> Fin 0 < np_inner g p"
    using assms by (auto simp: default_linesearch_def lnsrch_armijo_def Let_def split: if_splits)
  obtain s x' al fx' where l:
    "lnsrch_armijo_loop (\<lambda>y. Some (h y)) tr x p (h x) (np_inner g p) (Fin (1 / 2))
       (Fin (1 / 10000)) (nat 40) (Fin 1) x PInf = (s, x', al, fx')"
    by (metis prod_cases4)
  show ?thesis
  proof (cases s)
    case True
    with l armijo_loop_alpha_pos[of 1 "1 / 2" "\<lambda>y. Some (h y)" tr x p "h x" "np_inner g p"
        "Fin (1 / 10000)" "nat 40" x PInf x' al fx']
    obtain a' where "al = Fin a'" "0 < a'" by auto
    with assms True l show ?thesis
      by (simp add: default_linesearch_result[OF nd] lnsrch_armijo_return_def del: nat_numeral)
  next
    case False
    with assms l show ?thesis
      by (auto simp: default_linesearch_result[OF nd] lnsrch_armijo_return_def
            simp del: nat_numeral)
  qed
qed


lemma condition_number_np:
  "s \<noteq> [] \<Longrightarrow> \<exists>c. condition_number (map NpFloat s) = Inr c"
  by (simp add: condition_number_def hd_map last_map)



lemma np_inner_zero: "all_isfinite dx \<Longrightarrow> np_inner [Fin 0] dx = Fin 0"
  by (cases dx; cases "hd dx") (simp_all add: np_inner_def all_isfinite_def)

lemma square_linesearch:
  "default_linesearch (\<lambda>x. Some (np_norm (square_residual x))) [Fin 0] [Fin 0] [Fin 0]
     default_trajectory = Inr ([Fin 0], Fin 0, Fin 0)"
proof -
  have "fst (lnsrch_armijo_loop (\<lambda>x. Some (np_norm (square_residual x))) default_trajectory
          [Fin 0] [Fin 0] (Fin 0) (Fin 0) (Fin (1 / 2)) (Fin (1 / 10000)) (nat 40) (Fin 1)
          [Fin 0] PInf) = False"
    by (rule armijo_loop_fail)
       (auto simp: default_trajectory_def np_add_def np_scale_def square_residual_def
          np_norm_single)
  then show ?thesis
    by (simp add: default_linesearch_result np_inner_Fin square_residual_def np_norm_single
          armijo_return_fail del: nat_numeral)
qed

lemma square_body:
  assumes "solve_direction lstsq gnsolver [[Fin 0]] [Fin 0] = (dx, s)"
      and "all_isfinite dx" and "condition_number s = Inr c"
  shows "gn_body lstsq square_residual square_jacobian default_linesearch default_trajectory
           gnsolver [Fin 0] [Fin 0] =
         Inr \<lparr>st_x = [Fin 0], st_grad = [Fin 0], st_normgrad = Fin 0, st_normdx = Fin 0,
              st_f_eval = [Fin 0], st_f_eval_new = Fin 0, st_residual_increased = True,
              st_saved = None\<rparr>"
  using assms
  by (simp add: gn_body_def Let_def square_residual_def square_jacobian_def
        descent_direction_def np_inner_zero np_neg_def square_linesearch[unfolded square_residual_def]
        np_norm_single np_dot_single)

lemma square_grad:
  "np_dot (np_T (square_jacobian [Fin 0])) (square_residual [Fin 0]) = [Fin 0]"
  by (simp add: square_jacobian_def square_residual_def np_dot_single)

lemma square_tol:
  "gn_tol square_residual square_jacobian [Fin 0] (Fin (1 / 100000))
     = Fin (1 / 100000000000000)"
  by (simp add: gn_tol_def square_grad np_norm_single py_max_def)

lemma square_run:
  assumes "solve_direction lstsq gnsolver [[Fin 0]] [Fin 0] = (dx, s)"
      and "all_isfinite dx" and "condition_number s = Inr c"
  shows "gn lstsq square_residual square_jacobian [Fin 0] (Fin (1 / 100000))
           (Fin (1 / 1000000000000)) 100 None None gnsolver = Inr ([Fin 0], 0)"
  by (simp add: gn_def gn_run_def Let_def square_grad square_tol
        gn_loop_step[OF square_body[OF assms]] gn_info_def)

lemma lstsq_square:
  "solve_direction lstsq_1x1 None [[Fin 0]] [Fin 0] = ([Fin 0], [NpFloat (Fin 0)])"
  by (simp add: solve_direction_def np_neg_def lstsq_1x1_simp)

lemma condition_number_zero: "condition_number [NpFloat (Fin 0)] = Inr (NpFloat NaN)"
  by (simp add: condition_number_def)

lemma condition_number_one: "condition_number [NpFloat (Fin 1)] = Inr (NpFloat (Fin 1))"
  by (simp add: condition_number_def)

text \<open>The first problem with a direction solver whose step is not a number.\<close>

lemma nan_linesearch:
  "default_linesearch (\<lambda>x. Some (np_norm (shift_residual x))) [Fin (- 5)] [NaN] [Fin 0]
     default_trajectory = Inr ([Fin 0], Fin 0, Fin 5)"
proof -
  have "fst (lnsrch_armijo_loop (\<lambda>x. Some (np_norm (shift_residual x))) default_trajectory
          [Fin 0] [NaN] (Fin 5) NaN (Fin (1 / 2)) (Fin (1 / 10000)) (nat 40) (Fin 1)
          [Fin 0] PInf) = False"
    by (rule armijo_loop_fail) (simp add: fl_not_less_NaN)
  then show ?thesis
    by (simp add: default_linesearch_result np_inner_def shift_residual_def np_norm_single
          armijo_return_fail del: nat_numeral)
qed

lemma nan_body:
  "gn_body lstsq_1x1 shift_residual unit_jacobian default_linesearch default_trajectory
     (Some nan_solver) [Fin 0] [Fin (- 5)] =
   Inr \<lparr>st_x = [Fin 0], st_grad = [Fin (- 5)], st_normgrad = Fin 5, st_normdx = NaN,
        st_f_eval = [Fin (- 5)], st_f_eval_new = Fin 5, st_residual_increased = True,
        st_saved = Some ([[Fin 1]], [Fin 5])\<rparr>"
  by (simp add: gn_body_def Let_def solve_direction_def nan_solver_def shift_residual_def
        unit_jacobian_def np_neg_def all_isfinite_def descent_direction_def np_inner_def
        nan_linesearch[unfolded shift_residual_def] np_norm_single np_dot_single np_norm_NaN
        condition_number_one)

text \<open>The comparisons of floats along a run, and a value that is not a number.\<close>

lemma fl_le_trans: "(a::fl) \<le> b \<Longrightarrow> b \<le> c \<Longrightarrow> a \<le> c"
  by (cases a; cases b; cases c) simp_all

lemma fl_le_number: "(a::fl) \<le> b \<Longrightarrow> a \<noteq> NaN \<and> b \<noteq> NaN"
  by (cases a; cases b) simp_all

lemma fl_NaN_not_less: "\<not> NaN < (a::fl)"
  by (cases a) simp_all

lemma fl_NaN_not_le: "\<not> (a::fl) \<le> NaN"
  by (cases a) simp_all

lemma armijo_loop_number:
  "lnsrch_armijo_loop f traj x0 p fx0 dg bt_factor ftol n alpha x fx = (True, x', al, fx')
   \<Longrightarrow> fx' \<noteq> NaN"
  by (induction n arbitrary: alpha x fx) (auto split: option.splits if_splits)

lemma default_linesearch_number:
  assumes "default_linesearch obj g p y tr = Inr (xn, a, fn)"
      and "obj y = Some v" and "v \<noteq> NaN"
  shows "fn \<noteq> NaN"
proof -
  note r = assms(1) and fy = assms(2)
  obtain s x' al fx' where l:
    "lnsrch_armijo_loop obj tr y p v (np_inner g p) (Fin (1 / 2)) (Fin (1 / 10000)) (nat 40)
       (Fin 1) y PInf = (s, x', al, fx')"
    by (metis prod_cases4)
  show ?thesis
  proof (cases s)
    case True
    with r fy l armijo_loop_number[of obj tr y p v "np_inner g p" "Fin (1 / 2)"
        "Fin (1 / 10000)" "nat 40" "Fin 1" y PInf x' al fx']
    show ?thesis
      by (auto simp: default_linesearch_def lnsrch_armijo_def Let_def lnsrch_armijo_return_def
            split: if_splits simp del: nat_numeral)
  next
    case False
    with r fy l assms(3) show ?thesis
      by (auto simp: default_linesearch_def lnsrch_armijo_def Let_def lnsrch_armijo_return_def
            split: if_splits simp del: nat_numeral)
  qed
qed

text \<open>
  With a line search that, started at a point where the objective is a number, returns a
  point together with the objective value there, again a number, the residual norm does
  not grow in a pass through the loop body, nor from the start of the loop to its exit.
\<close>

lemma gn_body_monotone:
  assumes "gn_body lstsq f F linesearch trajectory gnsolver x grad = Inr st"
      and "np_norm (f x) \<noteq> NaN"
      and "\<And>obj g p y tr xn a fn v. obj y = Some v \<Longrightarrow> v \<noteq> NaN \<Longrightarrow>
             linesearch obj g p y tr = Inr (xn, a, fn) \<Longrightarrow> obj xn = Some fn \<and> fn \<noteq> NaN"
  shows "np_norm (f (st_x st)) \<le> np_norm (f x)"
proof -
  obtain dx s where sd: "solve_direction lstsq gnsolver (F x) (f x) = (dx, s)" by force
  from assms(1) sd obtain c where c: "condition_number s = Inr c"
    by (auto simp: gn_body_def Let_def split: sum.splits)
  from assms(1) sd c obtain x_new alpha fn where
    ls: "linesearch (\<lambda>y. Some (np_norm (f y))) grad (descent_direction grad dx) x trajectory
           = Inr (x_new, alpha, fn)"
    by (auto simp: gn_body_def Let_def split: sum.splits)
  from assms(1) sd c ls have
    st: "st_x st = (if np_norm (f x) \<le> fn then x else x_new)"
    by (auto simp: gn_body_def Let_def)
  from assms(3)[where obj = "\<lambda>y. Some (np_norm (f y))" and y = x and v = "np_norm (f x)",
      OF _ assms(2) ls]
  have v: "np_norm (f x_new) = fn" "fn \<noteq> NaN" by simp_all
  show ?thesis
  proof (cases "np_norm (f x) \<le> fn")
    case True
    with st assms(2) show ?thesis by (simp add: fl_le_refl)
  next
    case False
    with v(2) assms(2) have "fn < np_norm (f x)"
      using fl_not_le_cases[of "np_norm (f x)" fn] by auto
    with False st v(1) show ?thesis by (simp add: fl_less_imp_le)
  qed
qed

lemma gn_loop_monotone:
  assumes "\<And>obj g p y tr xn a fn v. obj y = Some v \<Longrightarrow> v \<noteq> NaN \<Longrightarrow>
             linesearch obj g p y tr = Inr (xn, a, fn) \<Longrightarrow> obj xn = Some fn \<and> fn \<noteq> NaN"
  shows "gn_loop lstsq f F tol tol_normdx maxiter linesearch trajectory gnsolver it x grad
           = Inr (it', st') \<Longrightarrow> np_norm (f x) \<noteq> NaN \<Longrightarrow>
         np_norm (f (st_x st')) \<le> np_norm (f x)"
proof (induction "nat maxiter - it" arbitrary: it x grad rule: less_induct)
  case less
  show ?case
  proof (cases "gn_body lstsq f F linesearch trajectory gnsolver x grad")
    case (Inl e)
    from gn_loop_error[OF Inl, of tol tol_normdx maxiter it] less.prems(1) show ?thesis
      by simp
  next
    case (Inr st)
    note step = gn_loop_step[OF Inr, of tol tol_normdx maxiter it]
    have m: "np_norm (f (st_x st)) \<le> np_norm (f x)"
      using Inr less.prems(2) assms by (rule gn_body_monotone)
    show ?thesis
    proof (cases "st_normgrad st < tol \<or> st_normdx st < tol_normdx
                    \<or> st_residual_increased st \<or> \<not> int it + 1 < maxiter")
      case True
      with step less.prems(1) have "st' = st" by simp
      with m show ?thesis by simp
    next
      case False
      then have d: "nat maxiter - (it + 1) < nat maxiter - it" by auto
      from False step less.prems(1) have
        "gn_loop lstsq f F tol tol_normdx maxiter linesearch trajectory gnsolver
           (it + 1) (st_x st) (st_grad st) = Inr (it', st')" by simp
      from less.hyps[OF d this] m fl_le_number[OF m]
      show ?thesis by (auto intro: fl_le_trans)
    qed
  qed
qed

text \<open>The first problem with a line search that returns a value that is not a number.\<close>

lemma nan_value_body:
  "gn_body lstsq_1x1 shift_residual unit_jacobian nan_value_search default_trajectory
     None [Fin 0] [Fin (- 5)] =
   Inr \<lparr>st_x = [Fin 7], st_grad = [Fin 2], st_normgrad = Fin 2, st_normdx = Fin 5,
        st_f_eval = [Fin (- 5)], st_f_eval_new = NaN, st_residual_increased = False,
        st_saved = None\<rparr>"
  by (simp add: gn_body_def Let_def solve_direction_def lstsq_1x1_simp shift_residual_def
        unit_jacobian_def np_neg_def all_isfinite_def descent_direction_def np_inner_Fin
        nan_value_search_def np_norm_single np_dot_single condition_number_def
        fl_NaN_not_le)

text \<open>A residual that is not a number anywhere, with the default line search.\<close>

lemma nan_residual_linesearch:
  "default_linesearch (\<lambda>x. Some (np_norm (nan_residual x))) [NaN] [NaN] [Fin 0]
     default_trajectory = Inr ([Fin 0], Fin 0, NaN)"
proof -
  have "fst (lnsrch_armijo_loop (\<lambda>x. Some (np_norm (nan_residual x))) default_trajectory
          [Fin 0] [NaN] NaN NaN (Fin (1 / 2)) (Fin (1 / 10000)) (nat 40) (Fin 1)
          [Fin 0] PInf) = False"
    by (rule armijo_loop_fail) (simp add: fl_not_less_NaN)
  then show ?thesis
    by (simp add: default_linesearch_result np_inner_def nan_residual_def np_norm_NaN
          armijo_return_fail del: nat_numeral)
qed

lemma nan_residual_body:
  "gn_body lstsq_1x1 nan_residual unit_jacobian default_linesearch default_trajectory
     (Some exact_solver) [Fin 0] [NaN] =
   Inr \<lparr>st_x = [Fin 0], st_grad = [NaN], st_normgrad = NaN, st_normdx = NaN,
        st_f_eval = [NaN], st_f_eval_new = NaN, st_residual_increased = False,
        st_saved = Some ([[Fin 1]], [NaN])\<rparr>"
  by (simp add: gn_body_def Let_def solve_direction_def exact_solver_def
        unit_jacobian_def np_neg_def all_isfinite_def descent_direction_def np_inner_def
        nan_residual_linesearch[unfolded nan_residual_def] nan_residual_def
        np_dot_def np_T_def np_norm_NaN condition_number_one fl_NaN_not_le)

text \<open>
  C2, as the code has it. Line 168 tests \<open>f_eval_new >= np.linalg.norm(f_eval)\<close> and
  adopts the point of the line search in the \<open>else\<close> branch, so a value that is not a
  number, on which every comparison is false, goes to the \<open>else\<close> branch. On the first
  problem, with a line search that returns the point 7 and a value that is not a number,
  the iterate 0 is replaced by 7 although the returned value is not strictly below the
  residual norm 5; the flag is not set, and with \<open>maxiter = 1\<close> the run returns the
  point 7 with the code 2. With a residual that is not a number and the default line
  search, the line search fails and returns \<open>alpha = 0\<close> with the start point, the flag
  is not set, the loop goes on, and with \<open>maxiter = 2\<close> the run ends with the code 2 of
  the iteration limit, not with the code 3.
\<close>

theorem nan_value_adopted:
  "gn_body lstsq_1x1 shift_residual unit_jacobian nan_value_search default_trajectory
     None [Fin 0] [Fin (- 5)] =
     Inr \<lparr>st_x = [Fin 7], st_grad = [Fin 2], st_normgrad = Fin 2, st_normdx = Fin 5,
        st_f_eval = [Fin (- 5)], st_f_eval_new = NaN, st_residual_increased = False,
        st_saved = None\<rparr>
   \<and> np_norm (shift_residual [Fin 0]) = Fin 5
   \<and> \<not> NaN < np_norm (shift_residual [Fin 0])
   \<and> gn lstsq_1x1 shift_residual unit_jacobian [Fin 0] (Fin (1 / 100000))
        (Fin (1 / 1000000000000)) 1 (Some nan_value_search) None None = Inr ([Fin 7], 2)
   \<and> default_linesearch (\<lambda>x. Some (np_norm (nan_residual x))) [NaN] [NaN] [Fin 0]
        default_trajectory = Inr ([Fin 0], Fin 0, NaN)
   \<and> gn_body lstsq_1x1 nan_residual unit_jacobian default_linesearch default_trajectory
       (Some exact_solver) [Fin 0] [NaN] =
     Inr \<lparr>st_x = [Fin 0], st_grad = [NaN], st_normgrad = NaN, st_normdx = NaN,
        st_f_eval = [NaN], st_f_eval_new = NaN, st_residual_increased = False,
        st_saved = Some ([[Fin 1]], [NaN])\<rparr>
   \<and> gn lstsq_1x1 nan_residual unit_jacobian [Fin 0] (Fin (1 / 100000))
        (Fin (1 / 1000000000000)) 2 None None (Some exact_solver) = Inr ([Fin 0], 2)"
proof -
  have n: "np_norm (shift_residual [Fin 0]) = Fin 5"
    by (simp add: shift_residual_def np_norm_single)
  have r1: "gn lstsq_1x1 shift_residual unit_jacobian [Fin 0] (Fin (1 / 100000))
        (Fin (1 / 1000000000000)) 1 (Some nan_value_search) None None = Inr ([Fin 7], 2)"
    by (simp add: gn_def gn_run_def Let_def shift_grad shift_tol
        gn_loop_step[OF nan_value_body] gn_info_def)
  have g: "np_dot (np_T (unit_jacobian [Fin 0])) (nan_residual [Fin 0]) = [NaN]"
    by (simp add: unit_jacobian_def nan_residual_def np_dot_def np_T_def np_inner_def)
  have t: "gn_tol nan_residual unit_jacobian [Fin 0] (Fin (1 / 100000)) = NaN"
    by (simp add: gn_tol_def Let_def g np_norm_NaN py_max_def)
  have r2: "gn lstsq_1x1 nan_residual unit_jacobian [Fin 0] (Fin (1 / 100000))
        (Fin (1 / 1000000000000)) 2 None None (Some exact_solver) = Inr ([Fin 0], 2)"
    by (simp add: gn_def gn_run_def Let_def g t gn_loop_step[OF nan_residual_body]
        gn_info_def fl_NaN_not_less fl_NaN_not_le)
  from nan_value_body n r1 nan_residual_linesearch nan_residual_body r2 show ?thesis
    by (simp add: fl_NaN_not_less)
qed

text \<open>
  C2. A pass through the loop body of \<open>gn\<close>, from any iterate \<open>x\<close> at which the
  residual norm is a number, with a line search whose returned value is a number. The
  iterate becomes the point returned by the line search exactly when the returned value
  is strictly below the residual norm at \<open>x\<close>; the loop then ends with this iteration
  if one of the two tolerance tests holds or the iteration limit is reached, and goes on
  from the new iterate otherwise. When the returned value is not strictly below, \<open>x\<close>
  is kept, the flag \<open>residual_increased\<close> is set and the loop ends with this iteration;
  this is the case when the default line search returns \<open>alpha = 0\<close>. When the line
  search returns the objective value of the point it returns, as the default one does,
  the residual norm at the new iterate is at most the one at \<open>x\<close>. When moreover that
  value is a number whenever the objective is a number at the start point, as with the
  default line search, the residual norm at the iterate with which the loop ends, and at
  the point a call of \<open>gn\<close> from \<open>x\<close> returns, is at most the one at \<open>x\<close>.
\<close>

theorem gn_iterate_monotone:
  assumes "gn_body lstsq f F linesearch trajectory gnsolver x grad = Inr st"
      and "np_norm (f x) \<noteq> NaN" and "st_f_eval_new st \<noteq> NaN"
  shows "(\<exists>x_new alpha.
            linesearch (\<lambda>y. Some (np_norm (f y))) grad
              (descent_direction grad (fst (solve_direction lstsq gnsolver (F x) (f x))))
              x trajectory = Inr (x_new, alpha, st_f_eval_new st)
            \<and> (if st_f_eval_new st < np_norm (f x)
               then st_x st = x_new \<and> \<not> st_residual_increased st
                    \<and> gn_loop lstsq f F tol tol_normdx maxiter linesearch trajectory gnsolver
                         it x grad =
                       (if st_normgrad st < tol \<or> st_normdx st < tol_normdx
                           \<or> \<not> int it + 1 < maxiter
                        then Inr (it, st)
                        else gn_loop lstsq f F tol tol_normdx maxiter linesearch trajectory
                               gnsolver (it + 1) x_new (st_grad st))
               else st_x st = x \<and> st_residual_increased st
                    \<and> gn_loop lstsq f F tol tol_normdx maxiter linesearch trajectory gnsolver
                         it x grad = Inr (it, st))
            \<and> (linesearch = default_linesearch \<and> alpha = Fin 0
                  \<longrightarrow> \<not> st_f_eval_new st < np_norm (f x)))
         \<and> ((\<forall>obj g p y tr xn a fn. linesearch obj g p y tr = Inr (xn, a, fn)
                 \<longrightarrow> obj xn = Some fn)
              \<longrightarrow> np_norm (f (st_x st)) \<le> np_norm (f x))
         \<and> ((\<forall>obj g p y tr xn a fn v.
                 obj y = Some v \<and> v \<noteq> NaN \<and> linesearch obj g p y tr = Inr (xn, a, fn)
                 \<longrightarrow> obj xn = Some fn \<and> fn \<noteq> NaN)
              \<longrightarrow> (\<forall>it' st'. gn_loop lstsq f F tol tol_normdx maxiter linesearch trajectory
                               gnsolver it x grad = Inr (it', st')
                      \<longrightarrow> np_norm (f (st_x st')) \<le> np_norm (f x))
                \<and> (\<forall>tol0 x' info. gn lstsq f F x tol0 tol_normdx maxiter (Some linesearch)
                               (Some trajectory) gnsolver = Inr (x', info)
                      \<longrightarrow> np_norm (f x') \<le> np_norm (f x)))"
proof -
  obtain dx s where sd: "solve_direction lstsq gnsolver (F x) (f x) = (dx, s)" by force
  from assms(1) sd obtain c where c: "condition_number s = Inr c"
    by (auto simp: gn_body_def Let_def split: sum.splits)
  from assms(1) sd c obtain x_new alpha fn where
    ls: "linesearch (\<lambda>y. Some (np_norm (f y))) grad (descent_direction grad dx) x trajectory
           = Inr (x_new, alpha, fn)"
    by (auto simp: gn_body_def Let_def split: sum.splits)
  from assms(1) sd c ls have
    st: "st_f_eval_new st = fn" "st_residual_increased st = (np_norm (f x) \<le> fn)"
        "st_x st = (if np_norm (f x) \<le> fn then x else x_new)"
    by (auto simp: gn_body_def Let_def)
  have cmp: "(np_norm (f x) \<le> fn) = (\<not> fn < np_norm (f x))"
    using assms(2,3) st(1) fl_less_not_le[of fn "np_norm (f x)"]
      fl_not_less_le[of fn "np_norm (f x)"] by auto
  note step = gn_loop_step[OF assms(1), of tol tol_normdx maxiter it]
  have stop: "st_residual_increased st \<Longrightarrow>
      gn_loop lstsq f F tol tol_normdx maxiter linesearch trajectory gnsolver it x grad
        = Inr (it, st)"
    by (simp add: step)
  have go: "\<not> st_residual_increased st \<Longrightarrow>
      gn_loop lstsq f F tol tol_normdx maxiter linesearch trajectory gnsolver it x grad =
        (if st_normgrad st < tol \<or> st_normdx st < tol_normdx \<or> \<not> int it + 1 < maxiter
         then Inr (it, st)
         else gn_loop lstsq f F tol tol_normdx maxiter linesearch trajectory gnsolver
                (it + 1) (st_x st) (st_grad st))"
    by (simp add: step)
  have zero: "\<not> fn < np_norm (f x)" if "linesearch = default_linesearch" "alpha = Fin 0"
  proof -
    from that ls have "fn = np_norm (f x)"
      using default_linesearch_zero_step[of "\<lambda>y. np_norm (f y)" grad
          "descent_direction grad dx" x trajectory x_new fn] by simp
    with assms(2) cmp show ?thesis by (simp add: fl_le_refl)
  qed
  have first: "\<exists>x_new alpha.
            linesearch (\<lambda>y. Some (np_norm (f y))) grad
              (descent_direction grad (fst (solve_direction lstsq gnsolver (F x) (f x))))
              x trajectory = Inr (x_new, alpha, st_f_eval_new st)
            \<and> (if st_f_eval_new st < np_norm (f x)
               then st_x st = x_new \<and> \<not> st_residual_increased st
                    \<and> gn_loop lstsq f F tol tol_normdx maxiter linesearch trajectory gnsolver
                         it x grad =
                       (if st_normgrad st < tol \<or> st_normdx st < tol_normdx
                           \<or> \<not> int it + 1 < maxiter
                        then Inr (it, st)
                        else gn_loop lstsq f F tol tol_normdx maxiter linesearch trajectory
                               gnsolver (it + 1) x_new (st_grad st))
               else st_x st = x \<and> st_residual_increased st
                    \<and> gn_loop lstsq f F tol tol_normdx maxiter linesearch trajectory gnsolver
                         it x grad = Inr (it, st))
            \<and> (linesearch = default_linesearch \<and> alpha = Fin 0
                  \<longrightarrow> \<not> st_f_eval_new st < np_norm (f x))"
  proof (intro exI[of _ x_new] exI[of _ alpha] conjI)
    show "linesearch (\<lambda>y. Some (np_norm (f y))) grad
              (descent_direction grad (fst (solve_direction lstsq gnsolver (F x) (f x))))
              x trajectory = Inr (x_new, alpha, st_f_eval_new st)"
      using ls st(1) sd by simp
    show "if st_f_eval_new st < np_norm (f x)
               then st_x st = x_new \<and> \<not> st_residual_increased st
                    \<and> gn_loop lstsq f F tol tol_normdx maxiter linesearch trajectory gnsolver
                         it x grad =
                       (if st_normgrad st < tol \<or> st_normdx st < tol_normdx
                           \<or> \<not> int it + 1 < maxiter
                        then Inr (it, st)
                        else gn_loop lstsq f F tol tol_normdx maxiter linesearch trajectory
                               gnsolver (it + 1) x_new (st_grad st))
               else st_x st = x \<and> st_residual_increased st
                    \<and> gn_loop lstsq f F tol tol_normdx maxiter linesearch trajectory gnsolver
                         it x grad = Inr (it, st)"
    proof (cases "fn < np_norm (f x)")
      case True
      with cmp st have a: "st_x st = x_new" "\<not> st_residual_increased st" by simp_all
      from go[OF a(2)] a True st(1) show ?thesis by simp
    next
      case False
      with cmp st have a: "st_x st = x" "st_residual_increased st" by simp_all
      from stop[OF a(2)] a False st(1) show ?thesis by simp
    qed
    show "linesearch = default_linesearch \<and> alpha = Fin 0
                  \<longrightarrow> \<not> st_f_eval_new st < np_norm (f x)"
      using zero st(1) by simp
  qed
  have second: "np_norm (f (st_x st)) \<le> np_norm (f x)"
    if h: "\<forall>obj g p y tr xn a fn. linesearch obj g p y tr = Inr (xn, a, fn)
                 \<longrightarrow> obj xn = Some fn"
  proof (cases "np_norm (f x) \<le> fn")
    case True
    with st(3) assms(2) show ?thesis by (simp add: fl_le_refl)
  next
    case False
    from h ls have "np_norm (f x_new) = fn" by fastforce
    moreover from False cmp have "fn < np_norm (f x)" by simp
    ultimately show ?thesis using False st(3) by (simp add: fl_less_imp_le)
  qed
  have third: "(\<forall>it' st'. gn_loop lstsq f F tol tol_normdx maxiter linesearch trajectory
                               gnsolver it x grad = Inr (it', st')
                      \<longrightarrow> np_norm (f (st_x st')) \<le> np_norm (f x))
                \<and> (\<forall>tol0 x' info. gn lstsq f F x tol0 tol_normdx maxiter (Some linesearch)
                               (Some trajectory) gnsolver = Inr (x', info)
                      \<longrightarrow> np_norm (f x') \<le> np_norm (f x))"
    if h: "\<forall>obj g p y tr xn a fn v.
                 obj y = Some v \<and> v \<noteq> NaN \<and> linesearch obj g p y tr = Inr (xn, a, fn)
                 \<longrightarrow> obj xn = Some fn \<and> fn \<noteq> NaN"
  proof -
    have k: "obj xn = Some fn \<and> fn \<noteq> NaN"
      if "obj y = Some v" "v \<noteq> NaN" "linesearch obj g p y tr = Inr (xn, a, fn)"
      for obj g p y tr xn a fn v
      using h that by blast
    have loop: "np_norm (f (st_x st')) \<le> np_norm (f x)"
      if "gn_loop lstsq f F t tol_normdx maxiter linesearch trajectory gnsolver i x gr
            = Inr (it', st')" for t i gr it' st'
      using k that assms(2) by (rule gn_loop_monotone)
    have call: "np_norm (f x') \<le> np_norm (f x)"
      if g: "gn lstsq f F x tol0 tol_normdx maxiter (Some linesearch) (Some trajectory)
              gnsolver = Inr (x', info)" for tol0 x' info
    proof (cases "maxiter \<le> 0")
      case True
      with g have "x' = x" by (simp add: gn_def)
      with assms(2) show ?thesis by (simp add: fl_le_refl)
    next
      case False
      with g obtain it' st' where
        r: "gn_run lstsq f F x tol0 tol_normdx maxiter (Some linesearch) (Some trajectory)
              gnsolver = Inr (it', st')" and x': "x' = st_x st'"
        by (auto simp: gn_def split: sum.splits)
      from r have "gn_loop lstsq f F (gn_tol f F x tol0) tol_normdx maxiter linesearch
          trajectory gnsolver 0 x (np_dot (np_T (F x)) (f x)) = Inr (it', st')"
        by (simp add: gn_run_def Let_def)
      from loop[OF this] x' show ?thesis by simp
    qed
    from loop call show ?thesis by blast
  qed
  from first second third show ?thesis by blast
qed

theorem gn_iterate_monotone_witness:
  "gn_body lstsq_1x1 shift_residual unit_jacobian default_linesearch default_trajectory
     None [Fin 0] [Fin (- 5)] =
     Inr \<lparr>st_x = [Fin 5], st_grad = [Fin 0], st_normgrad = Fin 0, st_normdx = Fin 5,
        st_f_eval = [Fin (- 5)], st_f_eval_new = Fin 0, st_residual_increased = False,
        st_saved = None\<rparr>
   \<and> np_norm (shift_residual [Fin 0]) = Fin 5
   \<and> np_norm (shift_residual [Fin 5]) \<le> np_norm (shift_residual [Fin 0])
   \<and> np_norm (shift_residual [Fin 5]) \<le> Fin 5
   \<and> gn_loop lstsq_1x1 shift_residual unit_jacobian (Fin 0) (Fin 0) 100
       default_linesearch default_trajectory None 0 [Fin 0] [Fin (- 5)] =
     gn_loop lstsq_1x1 shift_residual unit_jacobian (Fin 0) (Fin 0) 100
       default_linesearch default_trajectory None 1 [Fin 5] [Fin 0]
   \<and> gn lstsq_1x1 shift_residual unit_jacobian [Fin 0] (Fin (1 / 100000))
        (Fin (1 / 1000000000000)) 100 (Some default_linesearch) (Some default_trajectory)
        None = Inr ([Fin 5], 0)
   \<and> gn_body lstsq_1x1 square_residual square_jacobian default_linesearch default_trajectory
       None [Fin 0] [Fin 0] =
     Inr \<lparr>st_x = [Fin 0], st_grad = [Fin 0], st_normgrad = Fin 0, st_normdx = Fin 0,
        st_f_eval = [Fin 0], st_f_eval_new = Fin 0, st_residual_increased = True,
        st_saved = None\<rparr>
   \<and> np_norm (square_residual [Fin 0]) = Fin 0
   \<and> gn_loop lstsq_1x1 square_residual square_jacobian (Fin 0) (Fin 0) 100
       default_linesearch default_trajectory None 0 [Fin 0] [Fin 0] =
     Inr (0, \<lparr>st_x = [Fin 0], st_grad = [Fin 0], st_normgrad = Fin 0, st_normdx = Fin 0,
        st_f_eval = [Fin 0], st_f_eval_new = Fin 0, st_residual_increased = True,
        st_saved = None\<rparr>)"
proof -
  have nA: "np_norm (shift_residual [Fin 0]) = Fin 5"
    by (simp add: shift_residual_def np_norm_single)
  have nB: "np_norm (square_residual [Fin 0]) = Fin 0"
    by (simp add: square_residual_def np_norm_single)
  have bB: "gn_body lstsq_1x1 square_residual square_jacobian default_linesearch
       default_trajectory None [Fin 0] [Fin 0] =
     Inr \<lparr>st_x = [Fin 0], st_grad = [Fin 0], st_normgrad = Fin 0, st_normdx = Fin 0,
        st_f_eval = [Fin 0], st_f_eval_new = Fin 0, st_residual_increased = True,
        st_saved = None\<rparr>"
    by (rule square_body[OF lstsq_square _ condition_number_zero]) (simp add: all_isfinite_def)
  have honest: "\<forall>obj g p y tr xn a fn. default_linesearch obj g p y tr = Inr (xn, a, fn)
                 \<longrightarrow> obj xn = Some fn"
    by (blast dest: default_linesearch_honest)
  have number: "\<forall>obj g p y tr xn a fn v.
                 obj y = Some v \<and> v \<noteq> NaN \<and> default_linesearch obj g p y tr = Inr (xn, a, fn)
                 \<longrightarrow> obj xn = Some fn \<and> fn \<noteq> NaN"
    by (blast dest: default_linesearch_honest default_linesearch_number)
  have rA: "gn lstsq_1x1 shift_residual unit_jacobian [Fin 0] (Fin (1 / 100000))
        (Fin (1 / 1000000000000)) 100 (Some default_linesearch) (Some default_trajectory)
        None = Inr ([Fin 5], 0)"
    by (simp add: gn_def gn_run_def Let_def shift_grad shift_tol gn_loop_step[OF shift_body]
        gn_info_def)
  note tA = gn_iterate_monotone[OF shift_body, of "Fin 0" "Fin 0" 100 0]
  from tA honest nA
  have A: "np_norm (shift_residual [Fin 5]) \<le> np_norm (shift_residual [Fin 0])"
    by simp
  have pA: "np_norm (shift_residual [Fin 0]) \<noteq> NaN" by (simp add: nA)
  have pB: "st_f_eval_new \<lparr>st_x = [Fin 5], st_grad = [Fin 0], st_normgrad = Fin 0,
        st_normdx = Fin 5, st_f_eval = [Fin (- 5)], st_f_eval_new = Fin 0,
        st_residual_increased = False, st_saved = None\<rparr> \<noteq> NaN" by simp
  note gn_iterate_monotone[OF shift_body pA pB, of "Fin 0" "Fin (1 / 1000000000000)" 100 0,
      THEN conjunct2, THEN conjunct2, THEN mp, OF number, THEN conjunct2, rule_format, OF rA]
  with nA have A': "np_norm (shift_residual [Fin 5]) \<le> Fin 5" by simp
  from tA nA
  have L: "gn_loop lstsq_1x1 shift_residual unit_jacobian (Fin 0) (Fin 0) 100
       default_linesearch default_trajectory None 0 [Fin 0] [Fin (- 5)] =
     gn_loop lstsq_1x1 shift_residual unit_jacobian (Fin 0) (Fin 0) 100
       default_linesearch default_trajectory None 1 [Fin 5] [Fin 0]"
    by auto
  from gn_iterate_monotone[OF bB, of "Fin 0" "Fin 0" 100 0] nB
  have B: "gn_loop lstsq_1x1 square_residual square_jacobian (Fin 0) (Fin 0) 100
       default_linesearch default_trajectory None 0 [Fin 0] [Fin 0] =
     Inr (0, \<lparr>st_x = [Fin 0], st_grad = [Fin 0], st_normgrad = Fin 0, st_normdx = Fin 0,
        st_f_eval = [Fin 0], st_f_eval_new = Fin 0, st_residual_increased = True,
        st_saved = None\<rparr>)"
    by simp
  from shift_body nA A A' L rA bB nB B show ?thesis by simp
qed

text \<open>
  C5, as the code has it. For \<open>f(x) = x^2\<close>, \<open>F(x) = 2x\<close> and \<open>x0 = 0\<close>, with the
  default tolerances and any least-squares routine that returns a finite step and at
  least one singular value, the gradient is zero, so \<open>inner(grad, dx) >= 0\<close> and the
  step is replaced by \<open>-grad\<close>; no error is raised, and \<open>gn\<close> returns \<open>x0\<close> with
  the code 0: the gradient norm 0 is below the tolerance \<open>1e-14\<close>, the first test of
  the classification.
\<close>

theorem square_problem_converged:
  assumes "lstsq (square_jacobian [Fin 0]) (np_neg (square_residual [Fin 0])) = (dx, s)"
      and "all_isfinite dx" and "s \<noteq> []"
  shows "Fin 0 \<le> np_inner (np_dot (np_T (square_jacobian [Fin 0])) (square_residual [Fin 0])) dx
         \<and> descent_direction (np_dot (np_T (square_jacobian [Fin 0])) (square_residual [Fin 0])) dx
             = np_neg (np_dot (np_T (square_jacobian [Fin 0])) (square_residual [Fin 0]))
         \<and> gn lstsq square_residual square_jacobian [Fin 0] (Fin (1 / 100000))
             (Fin (1 / 1000000000000)) 100 None None None = Inr ([Fin 0], 0)"
proof -
  have sd: "solve_direction lstsq None [[Fin 0]] [Fin 0] = (dx, map NpFloat s)"
    using assms(1) by (simp add: solve_direction_def square_jacobian_def square_residual_def
        np_neg_def)
  obtain c where c: "condition_number (map NpFloat s) = Inr c"
    using condition_number_np[OF assms(3)] by blast
  have "gn lstsq square_residual square_jacobian [Fin 0] (Fin (1 / 100000))
             (Fin (1 / 1000000000000)) 100 None None None = Inr ([Fin 0], 0)"
    by (rule square_run[OF sd assms(2) c])
  then show ?thesis
    using assms(2) by (simp add: square_grad np_inner_zero descent_direction_def)
qed

theorem square_problem_converged_witness:
  "lstsq_1x1 (square_jacobian [Fin 0]) (np_neg (square_residual [Fin 0])) = ([Fin 0], [Fin 0])
   \<and> all_isfinite [Fin 0] \<and> [Fin 0] \<noteq> ([] :: fl list)
   \<and> descent_direction (np_dot (np_T (square_jacobian [Fin 0])) (square_residual [Fin 0]))
        [Fin 0] = [Fin 0]
   \<and> gn lstsq_1x1 square_residual square_jacobian [Fin 0] (Fin (1 / 100000))
        (Fin (1 / 1000000000000)) 100 None None None = Inr ([Fin 0], 0)"
proof -
  have h1: "lstsq_1x1 (square_jacobian [Fin 0]) (np_neg (square_residual [Fin 0]))
              = ([Fin 0], [Fin 0])"
    by (simp add: square_jacobian_def square_residual_def np_neg_def lstsq_1x1_simp)
  have h2: "all_isfinite [Fin 0]" by (simp add: all_isfinite_def)
  have h3: "[Fin 0] \<noteq> ([] :: fl list)" by simp
  from square_problem_converged[where lstsq = lstsq_1x1 and dx = "[Fin 0]" and s = "[Fin 0]"]
    h1 h2 h3 show ?thesis
    by (simp add: square_grad np_neg_def)
qed

text \<open>
  C5 as stated fails: with the least-squares solution of the zero system, the run ends
  with the code 0, not with the step-size code 1 or the no-progress code 3.
\<close>

theorem square_problem_code_is_zero:
  "gn lstsq_1x1 square_residual square_jacobian [Fin 0] (Fin (1 / 100000))
     (Fin (1 / 1000000000000)) 100 None None None = Inr ([Fin 0], 0)
   \<and> gn lstsq_1x1 square_residual square_jacobian [Fin 0] (Fin (1 / 100000))
       (Fin (1 / 1000000000000)) 100 None None None \<noteq> Inr ([Fin 0], 1)
   \<and> gn lstsq_1x1 square_residual square_jacobian [Fin 0] (Fin (1 / 100000))
       (Fin (1 / 1000000000000)) 100 None None None \<noteq> Inr ([Fin 0], 3)"
proof -
  have "gn lstsq_1x1 square_residual square_jacobian [Fin 0] (Fin (1 / 100000))
     (Fin (1 / 1000000000000)) 100 None None None = Inr ([Fin 0], 0)"
    by (rule square_run[OF lstsq_square _ condition_number_zero]) (simp add: all_isfinite_def)
  then show ?thesis by simp
qed

text \<open>
  C6 as stated fails: with a direction solver that returns a step which is not a number,
  \<open>gn\<close> raises nothing; it runs the line search with that step and returns normally,
  here with the code 3.
\<close>

theorem nan_direction_continues:
  "\<not> all_isfinite (fst (nan_solver (unit_jacobian [Fin 0]) (shift_residual [Fin 0])))
   \<and> gn lstsq_1x1 shift_residual unit_jacobian [Fin 0] (Fin (1 / 100000))
        (Fin (1 / 1000000000000)) 100 None None (Some nan_solver) = Inr ([Fin 0], 3)"
  by (simp add: gn_def gn_run_def Let_def shift_grad shift_tol gn_loop_step[OF nan_body]
        gn_info_def nan_solver_def all_isfinite_def np_norm_single)

text \<open>
  C6, as the code has it. When the direction solver returns a step with an entry that is
  not finite, with singular values from which line 160 computes the condition number
  without raising (a non-empty array, as scipy returns), the pass through the loop body
  does not fail: \<open>F_eval\<close> and \<open>-f_eval\<close> are saved to \<open>breaking_lstsq.npz\<close>,
  and the pass goes on with that step (or with \<open>-grad\<close>, if the test for a descent
  direction replaces it) and, with the default line search, completes.
\<close>

theorem nonfinite_direction_not_fatal:
  assumes "solve_direction lstsq gnsolver (F x) (f x) = (dx, s)"
      and "\<not> all_isfinite dx" and "condition_number s = Inr c"
  shows "\<exists>st. gn_body lstsq f F default_linesearch trajectory gnsolver x grad = Inr st
           \<and> st_saved st = Some (F x, np_neg (f x))
           \<and> st_normdx st = np_norm (descent_direction grad dx)"
  using assms
  by (simp add: gn_body_def Let_def default_linesearch_result descent_direction_not_ascent
        split: prod.splits)

theorem nonfinite_direction_not_fatal_witness:
  "solve_direction lstsq_1x1 (Some nan_solver) (unit_jacobian [Fin 0]) (shift_residual [Fin 0])
     = ([NaN], [NpFloat (Fin 1)])
   \<and> \<not> all_isfinite [NaN] \<and> condition_number [NpFloat (Fin 1)] = Inr (NpFloat (Fin 1))
   \<and> gn_body lstsq_1x1 shift_residual unit_jacobian default_linesearch default_trajectory
        (Some nan_solver) [Fin 0] [Fin (- 5)] =
      Inr \<lparr>st_x = [Fin 0], st_grad = [Fin (- 5)], st_normgrad = Fin 5, st_normdx = NaN,
        st_f_eval = [Fin (- 5)], st_f_eval_new = Fin 5, st_residual_increased = True,
        st_saved = Some ([[Fin 1]], [Fin 5])\<rparr>"
proof -
  have h1: "solve_direction lstsq_1x1 (Some nan_solver) (unit_jacobian [Fin 0])
              (shift_residual [Fin 0]) = ([NaN], [NpFloat (Fin 1)])"
    by (simp add: solve_direction_def nan_solver_def)
  have h2: "\<not> all_isfinite [NaN]" by (simp add: all_isfinite_def)
  note h3 = condition_number_one
  from nonfinite_direction_not_fatal[where lstsq = lstsq_1x1 and gnsolver = "Some nan_solver"
      and F = unit_jacobian and f = shift_residual and x = "[Fin 0]" and dx = "[NaN]"
      and s = "[NpFloat (Fin 1)]" and c = "NpFloat (Fin 1)"
      and trajectory = default_trajectory and grad = "[Fin (- 5)]"]
    h1 h2 h3 nan_body
  show ?thesis by simp
qed

lemma gn_body_empty:
  "snd (solve_direction lstsq gnsolver (F x) (f x)) = [] \<Longrightarrow>
   gn_body lstsq f F linesearch trajectory gnsolver x grad = Inl IndexError"
proof -
  assume e: "snd (solve_direction lstsq gnsolver (F x) (f x)) = []"
  obtain dx s where r: "solve_direction lstsq gnsolver (F x) (f x) = (dx, s)" by force
  with e have "s = []" by simp
  with r show ?thesis by (simp add: gn_body_def Let_def condition_number_def)
qed

lemma gn_body_cond_error:
  "condition_number (snd (solve_direction lstsq gnsolver (F x) (f x))) = Inl e \<Longrightarrow>
   gn_body lstsq f F linesearch trajectory gnsolver x grad = Inl e"
proof -
  assume e: "condition_number (snd (solve_direction lstsq gnsolver (F x) (f x))) = Inl e"
  obtain dx s where r: "solve_direction lstsq gnsolver (F x) (f x) = (dx, s)" by force
  with e have "condition_number s = Inl e" by simp
  with r show ?thesis by (simp add: gn_body_def Let_def)
qed

lemma gn_body_same_direction:
  assumes "fst (solve_direction l1 g1 (F x) (f x)) = fst (solve_direction l2 g2 (F x) (f x))"
      and "condition_number (snd (solve_direction l1 g1 (F x) (f x))) = Inr c1"
      and "condition_number (snd (solve_direction l2 g2 (F x) (f x))) = Inr c2"
  shows "gn_body l1 f F linesearch trajectory g1 x grad
           = gn_body l2 f F linesearch trajectory g2 x grad"
proof -
  obtain dx1 s1 where r1: "solve_direction l1 g1 (F x) (f x) = (dx1, s1)" by force
  obtain dx2 s2 where r2: "solve_direction l2 g2 (F x) (f x) = (dx2, s2)" by force
  from assms r1 r2 have "dx1 = dx2" "condition_number s1 = Inr c1"
    "condition_number s2 = Inr c2" by simp_all
  then show ?thesis by (simp add: gn_body_def r1 r2 Let_def)
qed

lemma gn_body_same_outcome:
  assumes "fst (solve_direction l1 g1 (F x) (f x)) = fst (solve_direction l2 g2 (F x) (f x))"
      and "\<And>e. (condition_number (snd (solve_direction l1 g1 (F x) (f x))) = Inl e)
               = (condition_number (snd (solve_direction l2 g2 (F x) (f x))) = Inl e)"
  shows "gn_body l1 f F linesearch trajectory g1 x grad
           = gn_body l2 f F linesearch trajectory g2 x grad"
proof (cases "condition_number (snd (solve_direction l1 g1 (F x) (f x)))")
  case (Inl e)
  with assms(2)[of e] have "condition_number (snd (solve_direction l2 g2 (F x) (f x))) = Inl e"
    by simp
  with Inl show ?thesis by (simp add: gn_body_cond_error)
next
  case (Inr c1)
  with assms(2) obtain c2 where
    "condition_number (snd (solve_direction l2 g2 (F x) (f x))) = Inr c2"
    by (cases "condition_number (snd (solve_direction l2 g2 (F x) (f x)))") auto
  with assms(1) Inr show ?thesis by (rule gn_body_same_direction)
qed

lemma gn_loop_same_body:
  assumes "\<And>x grad. gn_body l1 f F linesearch trajectory g1 x grad
                       = gn_body l2 f F linesearch trajectory g2 x grad"
  shows "gn_loop l1 f F tol tol_normdx maxiter linesearch trajectory g1 it x grad
           = gn_loop l2 f F tol tol_normdx maxiter linesearch trajectory g2 it x grad"
proof (induction "nat maxiter - it" arbitrary: it x grad rule: less_induct)
  case less
  show ?case
  proof (cases "gn_body l1 f F linesearch trajectory g1 x grad")
    case (Inl e)
    from gn_loop_error[OF Inl] gn_loop_error[OF Inl[unfolded assms]] show ?thesis by simp
  next
    case (Inr st)
    note s1 = gn_loop_step[OF Inr, of tol tol_normdx maxiter it]
    note s2 = gn_loop_step[OF Inr[unfolded assms], of tol tol_normdx maxiter it]
    show ?thesis
    proof (cases "st_normgrad st < tol \<or> st_normdx st < tol_normdx
                    \<or> st_residual_increased st \<or> \<not> int it + 1 < maxiter")
      case True
      with s1 s2 show ?thesis by simp
    next
      case False
      then have "nat maxiter - (it + 1) < nat maxiter - it" by auto
      from less.hyps[OF this] False s1 s2 show ?thesis by simp
    qed
  qed
qed

text \<open>The first problem with a direction solver that returns the exact step.\<close>

lemma exact_body:
  "gn_body lstsq_1x1 shift_residual unit_jacobian default_linesearch default_trajectory
     (Some exact_solver) [Fin 0] [Fin (- 5)] =
   Inr \<lparr>st_x = [Fin 5], st_grad = [Fin 0], st_normgrad = Fin 0, st_normdx = Fin 5,
        st_f_eval = [Fin (- 5)], st_f_eval_new = Fin 0, st_residual_increased = False,
        st_saved = None\<rparr>"
  by (simp add: gn_body_def solve_direction_def exact_solver_def condition_number_def
        shift_residual_def unit_jacobian_def np_neg_def all_isfinite_def
        descent_direction_def np_inner_Fin shift_linesearch[unfolded shift_residual_def]
        np_norm_single np_dot_single)

lemma exact_run:
  "gn lstsq_1x1 shift_residual unit_jacobian [Fin 0] (Fin (1 / 100000))
     (Fin (1 / 1000000000000)) 100 None None (Some exact_solver) = Inr ([Fin 5], 0)"
  by (simp add: gn_def gn_run_def Let_def shift_grad shift_tol gn_loop_step[OF exact_body]
        gn_info_def)

text \<open>
  C9, as the code has it. Line 160 computes \<open>cond = s[0] / s[-1]\<close> in every pass, before
  the line search. It raises \<open>IndexError\<close> on an empty sequence of singular values, and
  \<open>ZeroDivisionError\<close> when the first and the last singular value are Python floats and
  the last one is zero; on numpy scalars the division returns \<open>inf\<close> or \<open>nan\<close> and does
  not raise. So the singular values do reach the control flow: of three direction solvers
  that return the same direction for every system, one lets \<open>gn\<close> return the minimiser
  with code 0, one makes it raise \<open>IndexError\<close> and one makes it raise
  \<open>ZeroDivisionError\<close>, from the same starting point.
\<close>

theorem singular_values_change_outcome:
  "(\<forall>A b. fst (solve_direction lstsq_1x1 (Some exact_solver) A b)
             = fst (solve_direction lstsq_1x1 (Some exact_solver_empty) A b))
   \<and> (\<forall>A b. fst (solve_direction lstsq_1x1 (Some exact_solver) A b)
             = fst (solve_direction lstsq_1x1 (Some exact_solver_pyzero) A b))
   \<and> gn lstsq_1x1 shift_residual unit_jacobian [Fin 0] (Fin (1 / 100000))
        (Fin (1 / 1000000000000)) 100 None None (Some exact_solver) = Inr ([Fin 5], 0)
   \<and> gn lstsq_1x1 shift_residual unit_jacobian [Fin 0] (Fin (1 / 100000))
        (Fin (1 / 1000000000000)) 100 None None (Some exact_solver_empty) = Inl IndexError
   \<and> gn lstsq_1x1 shift_residual unit_jacobian [Fin 0] (Fin (1 / 100000))
        (Fin (1 / 1000000000000)) 100 None None (Some exact_solver_pyzero)
       = Inl ZeroDivisionError"
proof -
  have h1: "\<forall>A b. fst (solve_direction lstsq_1x1 (Some exact_solver) A b)
             = fst (solve_direction lstsq_1x1 (Some exact_solver_empty) A b)"
    by (simp add: solve_direction_def exact_solver_def exact_solver_empty_def)
  have h2: "\<forall>A b. fst (solve_direction lstsq_1x1 (Some exact_solver) A b)
             = fst (solve_direction lstsq_1x1 (Some exact_solver_pyzero) A b)"
    by (simp add: solve_direction_def exact_solver_def exact_solver_pyzero_def)
  note r1 = exact_run
  have e2: "gn_body lstsq_1x1 shift_residual unit_jacobian default_linesearch
        default_trajectory (Some exact_solver_empty) [Fin 0] [Fin (- 5)] = Inl IndexError"
    by (rule gn_body_cond_error)
       (simp add: solve_direction_def exact_solver_empty_def condition_number_def)
  have r2: "gn lstsq_1x1 shift_residual unit_jacobian [Fin 0] (Fin (1 / 100000))
        (Fin (1 / 1000000000000)) 100 None None (Some exact_solver_empty) = Inl IndexError"
    by (simp add: gn_def gn_run_def Let_def shift_grad gn_loop_error[OF e2])
  have e3: "gn_body lstsq_1x1 shift_residual unit_jacobian default_linesearch
        default_trajectory (Some exact_solver_pyzero) [Fin 0] [Fin (- 5)]
      = Inl ZeroDivisionError"
    by (rule gn_body_cond_error)
       (simp add: solve_direction_def exact_solver_pyzero_def condition_number_def)
  have r3: "gn lstsq_1x1 shift_residual unit_jacobian [Fin 0] (Fin (1 / 100000))
        (Fin (1 / 1000000000000)) 100 None None (Some exact_solver_pyzero)
      = Inl ZeroDivisionError"
    by (simp add: gn_def gn_run_def Let_def shift_grad gn_loop_error[OF e3])
  from h1 h2 r1 r2 r3 show ?thesis by blast
qed

text \<open>
  C9. Two runs of \<open>gn\<close> that differ only in their direction solvers have the same
  outcome, the same returned point and code or the same exception, when for every system
  the two solvers return the same step and singular values on which line 160 behaves
  alike: it raises the same exception on both or on neither. This is the case for any two
  solvers that return non-empty numpy arrays of singular values, as \<open>scipy.linalg.lstsq\<close>
  does. Beyond the exception of line 160 the singular values do not show in the outcome.
\<close>

theorem singular_values_not_observed:
  assumes "\<forall>A b. fst (solve_direction l1 g1 A b) = fst (solve_direction l2 g2 A b)"
      and "\<forall>A b e. (condition_number (snd (solve_direction l1 g1 A b)) = Inl e)
                   = (condition_number (snd (solve_direction l2 g2 A b)) = Inl e)"
  shows "gn l1 f F x0 tol tol_normdx maxiter linesearch trajectory g1
           = gn l2 f F x0 tol tol_normdx maxiter linesearch trajectory g2"
proof -
  have body: "gn_body l1 f F ls tr g1 x grad = gn_body l2 f F ls tr g2 x grad"
    for ls tr x grad
    using assms by (intro gn_body_same_outcome) auto
  have "gn_run l1 f F x0 tol tol_normdx maxiter linesearch trajectory g1
          = gn_run l2 f F x0 tol tol_normdx maxiter linesearch trajectory g2"
    unfolding gn_run_def Let_def by (simp add: gn_loop_same_body[OF body])
  then show ?thesis by (simp add: gn_def)
qed

theorem singular_values_not_observed_witness:
  "(\<forall>A b. fst (solve_direction lstsq_1x1 (Some exact_solver) A b)
             = fst (solve_direction lstsq_1x1 (Some exact_solver_alt) A b))
   \<and> (\<forall>A b e. (condition_number (snd (solve_direction lstsq_1x1 (Some exact_solver) A b))
                   = Inl e)
               = (condition_number (snd (solve_direction lstsq_1x1 (Some exact_solver_alt) A b))
                   = Inl e))
   \<and> snd (exact_solver [[Fin 1]] [Fin (- 5)]) \<noteq> snd (exact_solver_alt [[Fin 1]] [Fin (- 5)])
   \<and> gn lstsq_1x1 shift_residual unit_jacobian [Fin 0] (Fin (1 / 100000))
        (Fin (1 / 1000000000000)) 100 None None (Some exact_solver) = Inr ([Fin 5], 0)
   \<and> gn lstsq_1x1 shift_residual unit_jacobian [Fin 0] (Fin (1 / 100000))
        (Fin (1 / 1000000000000)) 100 None None (Some exact_solver_alt) = Inr ([Fin 5], 0)"
proof -
  have h: "\<forall>A b. fst (solve_direction lstsq_1x1 (Some exact_solver) A b)
             = fst (solve_direction lstsq_1x1 (Some exact_solver_alt) A b)"
    by (simp add: solve_direction_def exact_solver_def exact_solver_alt_def)
  have c: "\<forall>A b e. (condition_number (snd (solve_direction lstsq_1x1 (Some exact_solver) A b))
                   = Inl e)
               = (condition_number (snd (solve_direction lstsq_1x1 (Some exact_solver_alt) A b))
                   = Inl e)"
    by (simp add: solve_direction_def exact_solver_def exact_solver_alt_def
        condition_number_def)
  have d: "snd (exact_solver [[Fin 1]] [Fin (- 5)]) \<noteq> snd (exact_solver_alt [[Fin 1]] [Fin (- 5)])"
    by (simp add: exact_solver_def exact_solver_alt_def)
  note r1 = exact_run
  from singular_values_not_observed[OF h c, of shift_residual unit_jacobian "[Fin 0]"
      "Fin (1 / 100000)" "Fin (1 / 1000000000000)" 100 None None] r1
  have r2: "gn lstsq_1x1 shift_residual unit_jacobian [Fin 0] (Fin (1 / 100000))
        (Fin (1 / 1000000000000)) 100 None None (Some exact_solver_alt) = Inr ([Fin 5], 0)"
    by simp
  from h c d r1 r2 show ?thesis by blast
qed



end
